theory Spec2Isabelle
  imports Main "HOL-Library.Sublist" "HOL-Library.AList" "HOL-Library.Char_ord"
    "HOL-Library.List_Lexorder"
begin

section \<open>JavaScript values\<close>

text \<open>
  Values that reach the handlers of \<^verbatim>\<open>app.js\<close> from a parsed query string, a parsed
  JSON body or a multipart field, and the values the handlers send back with
  \<^verbatim>\<open>res.json\<close>. A string stands for the JavaScript string with that UTF-8 encoding.
  Numbers are the integer-valued ones; all that the handlers ask of a number is whether
  it is zero.
\<close>

datatype jsval =
    JUndefined
  | JNull
  | JBool bool
  | JNum int
  | JStr string
  | JArr "jsval list"
  | JObj "(string \<times> jsval) list"

text \<open>Truthiness, as \<^verbatim>\<open>!x\<close>, \<^verbatim>\<open>x ? a : b\<close> and \<^verbatim>\<open>x || y\<close> test it.\<close>

fun truthy :: "jsval \<Rightarrow> bool" where
  "truthy JUndefined = False"
| "truthy JNull = False"
| "truthy (JBool b) = b"
| "truthy (JNum n) = (n \<noteq> 0)"
| "truthy (JStr s) = (s \<noteq> [])"
| "truthy (JArr _) = True"
| "truthy (JObj _) = True"

text \<open>\<^verbatim>\<open>x || y\<close>\<close>

definition js_or :: "jsval \<Rightarrow> jsval \<Rightarrow> jsval" where
  "js_or x y = (if truthy x then x else y)"

text \<open>Property access \<^verbatim>\<open>o.k\<close> on a parsed value: \<^verbatim>\<open>undefined\<close> when the key is absent.\<close>

fun js_get :: "jsval \<Rightarrow> string \<Rightarrow> jsval" where
  "js_get (JObj kvs) k = (case map_of kvs k of Some v \<Rightarrow> v | None \<Rightarrow> JUndefined)"
| "js_get _ k = JUndefined"

text \<open>A thrown \<^verbatim>\<open>Error\<close>; the handlers read only its \<^verbatim>\<open>message\<close>.\<close>

datatype jserror = Error (message: string)

subsection \<open>Decimal printing and the description of a rejected argument\<close>

fun digit_char :: "nat \<Rightarrow> char" where
  "digit_char n = char_of (48 + n)"

fun show_nat :: "nat \<Rightarrow> string" where
  "show_nat n = (if n < 10 then [digit_char n] else show_nat (n div 10) @ [digit_char (n mod 10)])"

declare show_nat.simps [simp del]

definition show_int :: "int \<Rightarrow> string" where
  "show_int i = (if i < 0 then CHR ''-'' # show_nat (nat (- i)) else show_nat (nat i))"

text \<open>
  The tail of Node's \<^verbatim>\<open>ERR_INVALID_ARG_TYPE\<close> message for a value that is not a string.
  (A string is never rejected by the checks below; its case is there for totality.)
\<close>

fun received :: "jsval \<Rightarrow> string" where
  "received JUndefined = ''Received undefined''"
| "received JNull = ''Received null''"
| "received (JBool b) = ''Received type boolean ('' @ (if b then ''true'' else ''false'') @ '')''"
| "received (JNum n) = ''Received type number ('' @ show_int n @ '')''"
| "received (JStr s) = ''Received type string''"
| "received (JArr _) = ''Received an instance of Array''"
| "received (JObj _) = ''Received an instance of Object''"

section \<open>The \<^verbatim>\<open>path\<close> module (POSIX)\<close>

text \<open>The pieces of a string between its slashes: \<^verbatim>\<open>a//b\<close> has the pieces a, empty, b.\<close>

fun segments :: "string \<Rightarrow> string list" where
  "segments [] = [[]]"
| "segments (c # cs) =
     (if c = CHR ''/'' then [] # segments cs
      else (case segments cs of [] \<Rightarrow> [[c]] | s # ss \<Rightarrow> (c # s) # ss))"

fun join_segs :: "string list \<Rightarrow> string" where
  "join_segs [] = []"
| "join_segs [s] = s"
| "join_segs (s # t # ss) = s @ CHR ''/'' # join_segs (t # ss)"

text \<open>
  \<^verbatim>\<open>normalizeString(path, allowAboveRoot)\<close>: empty pieces and \<^verbatim>\<open>.\<close> are skipped; \<^verbatim>\<open>..\<close>
  removes the last kept piece unless there is none or it is \<^verbatim>\<open>..\<close> itself, in which
  case it is kept when \<^verbatim>\<open>allowAboveRoot\<close> and dropped otherwise.
\<close>

fun normalizeString :: "bool \<Rightarrow> string list \<Rightarrow> string list \<Rightarrow> string list" where
  "normalizeString allowAbove res [] = res"
| "normalizeString allowAbove res (s # ss) =
     (if s = [] \<or> s = ''.'' then normalizeString allowAbove res ss
      else if s = ''..'' then
        (if res \<noteq> [] \<and> last res \<noteq> ''..'' then normalizeString allowAbove (butlast res) ss
         else if allowAbove then normalizeString allowAbove (res @ [''..'']) ss
         else normalizeString allowAbove res ss)
      else normalizeString allowAbove (res @ [s]) ss)"

definition normalize :: "string \<Rightarrow> string" where
  "normalize p =
     (if p = [] then ''.''
      else
        let isAbsolute = (hd p = CHR ''/'');
            trailingSeparator = (last p = CHR ''/'');
            q = join_segs (normalizeString (\<not> isAbsolute) [] (segments p))
        in if q = [] then (if isAbsolute then ''/'' else if trailingSeparator then ''./'' else ''.'')
           else (let q' = (if trailingSeparator then q @ ''/'' else q)
                 in if isAbsolute then CHR ''/'' # q' else q'))"

text \<open>
  \<^verbatim>\<open>path.join(...args)\<close>: every argument must be a string (a \<^verbatim>\<open>TypeError\<close> otherwise);
  the non-empty ones are glued with slashes and the result is normalized.
\<close>

fun join_args :: "jsval list \<Rightarrow> string option \<Rightarrow> jserror + string option" where
  "join_args [] joined = Inr joined"
| "join_args (JStr a # as) joined =
     join_args as (if a = [] then joined
                   else (case joined of None \<Rightarrow> Some a | Some j \<Rightarrow> Some (j @ CHR ''/'' # a)))"
| "join_args (v # as) joined =
     Inl (Error (''The \"path\" argument must be of type string. '' @ received v))"

definition path_join :: "jsval list \<Rightarrow> jserror + string" where
  "path_join args =
     (case join_args args None of
        Inl e \<Rightarrow> Inl e
      | Inr None \<Rightarrow> Inr ''.''
      | Inr (Some joined) \<Rightarrow> Inr (normalize joined))"

text \<open>
  \<^verbatim>\<open>path.dirname(p)\<close>: scanning from the end down to index 1, trailing slashes are
  passed over, then the first slash found ends the directory part.
\<close>

definition dirname :: "string \<Rightarrow> string" where
  "dirname p =
     (if p = [] then ''.''
      else
        let hasRoot = (hd p = CHR ''/'');
            r = dropWhile (\<lambda>c. c \<noteq> CHR ''/'') (dropWhile (\<lambda>c. c = CHR ''/'') (rev (tl p)));
            e = length r
        in if r = [] then (if hasRoot then ''/'' else ''.'')
           else if hasRoot \<and> e = 1 then ''//''
           else take e p)"

text \<open>\<^verbatim>\<open>s.startsWith(t)\<close>\<close>

definition startsWith :: "string \<Rightarrow> string \<Rightarrow> bool" where
  "startsWith s t = prefix t s"

text \<open>
  The working directory of the process: \<^verbatim>\<open>WORKDIR /usr/src/app\<close> of the Dockerfile.
  Relative paths (multer's \<^verbatim>\<open>uploads/\<close>, a relative \<^verbatim>\<open>FILES_DIR\<close>) start here.
\<close>

definition cwd :: "string list" where
  "cwd = [''usr'', ''src'', ''app'']"

text \<open>\<^verbatim>\<open>path.resolve(p)\<close>, as the list of the components of the absolute path.\<close>

definition resolve_segs :: "string \<Rightarrow> string list" where
  "resolve_segs p =
     normalizeString False [] ((if p \<noteq> [] \<and> hd p = CHR ''/'' then [] else cwd) @ segments p)"

text \<open>
  \<^verbatim>\<open>path.relative(from, to)\<close>, read on components: both paths are resolved, the common
  leading components are dropped, and one \<^verbatim>\<open>..\<close> is written for each component left of
  \<^verbatim>\<open>from\<close>.
\<close>

definition relative :: "string \<Rightarrow> string \<Rightarrow> string" where
  "relative from to =
     (if from = to then []
      else
        let f = resolve_segs from;
            t = resolve_segs to;
            n = length (longest_common_prefix f t)
        in join_segs (replicate (length f - n) ''..'' @ drop n t))"

section \<open>The file system\<close>

text \<open>
  The tree below \<^verbatim>\<open>/\<close>, as a table from the components of an absolute path to what is
  there: a regular file with its bytes, or a directory. The root is always a directory.
  There are no symbolic links, permissions, or devices, and no timestamps (so the
  \<^verbatim>\<open>modified\<close> field of a listing entry is left out below).
\<close>

datatype entry = File string | Dir

type_synonym filesys = "(string list \<times> entry) list"

definition lookup :: "filesys \<Rightarrow> string list \<Rightarrow> entry option" where
  "lookup fs q = (if q = [] then Some Dir else map_of fs q)"

datatype errno = ENOENT | ENOTDIR | EISDIR | EEXIST | EBUSY

fun errno_text :: "errno \<Rightarrow> string" where
  "errno_text ENOENT = ''ENOENT: no such file or directory''"
| "errno_text ENOTDIR = ''ENOTDIR: not a directory''"
| "errno_text EISDIR = ''EISDIR: illegal operation on a directory''"
| "errno_text EEXIST = ''EEXIST: file already exists''"
| "errno_text EBUSY = ''EBUSY: resource busy or locked''"

text \<open>The message of a failed system call on a path, as Node words it.\<close>

definition sys_error :: "errno \<Rightarrow> string \<Rightarrow> string \<Rightarrow> jserror" where
  "sys_error e syscall p = Error (errno_text e @ '', '' @ syscall @ '' '' @ [CHR 0x27] @ p @ [CHR 0x27])"

text \<open>
  Every function of \<^verbatim>\<open>fs\<close> first refuses a path that holds a null byte, without any
  system call. The message quotes the path as \<^verbatim>\<open>util.inspect\<close> prints it; of its
  rules only the single quotes and the escape of the null byte are kept here.
\<close>

definition inspect_path :: "string \<Rightarrow> string" where
  "inspect_path p =
     [CHR 0x27] @ concat (map (\<lambda>c. if c = CHR 0x00 then CHR 0x5C # ''x00'' else [c]) p) @ [CHR 0x27]"

definition nullCheck :: "string \<Rightarrow> jserror option" where
  "nullCheck p =
     (if CHR 0x00 \<in> set p
      then Some (Error (''The argument '' @ [CHR 0x27] @ ''path'' @ [CHR 0x27] @
                        '' must be a string or Uint8Array without null bytes. Received '' @
                        inspect_path p))
      else None)"

text \<open>
  Path lookup as the kernel does it: from \<^verbatim>\<open>/\<close> or the working directory, one component
  at a time; what is stepped through must be a directory. The place reached may hold
  nothing yet.
\<close>

fun walk :: "filesys \<Rightarrow> string list \<Rightarrow> string list \<Rightarrow> errno + string list" where
  "walk fs cur [] = Inr cur"
| "walk fs cur (s # ss) =
     (case lookup fs cur of
        None \<Rightarrow> Inl ENOENT
      | Some (File _) \<Rightarrow> Inl ENOTDIR
      | Some Dir \<Rightarrow>
          (if s = ''.'' then walk fs cur ss
           else if s = ''..'' then walk fs (butlast cur) ss
           else walk fs (cur @ [s]) ss))"

definition components :: "string \<Rightarrow> string list" where
  "components p = filter (\<lambda>s. s \<noteq> []) (segments p)"

definition start_dir :: "string \<Rightarrow> string list" where
  "start_dir p = (if p \<noteq> [] \<and> hd p = CHR ''/'' then [] else cwd)"

text \<open>A trailing slash asks for a directory: a regular file there is \<^verbatim>\<open>ENOTDIR\<close>.\<close>

definition resolve :: "filesys \<Rightarrow> string \<Rightarrow> errno + string list" where
  "resolve fs p =
     (if p = [] then Inl ENOENT
      else
        (case walk fs (start_dir p) (components p) of
           Inl e \<Rightarrow> Inl e
         | Inr q \<Rightarrow>
             (case lookup fs q of
                Some (File _) \<Rightarrow> (if last p = CHR ''/'' then Inl ENOTDIR else Inr q)
              | _ \<Rightarrow> Inr q)))"

subsection \<open>Reading\<close>

record stats =
  isDirectory :: bool
  size :: nat

text \<open>\<^verbatim>\<open>fs.stat(p)\<close>. A directory reports the size of one block.\<close>

definition fs_stat :: "filesys \<Rightarrow> string \<Rightarrow> jserror + stats" where
  "fs_stat fs p =
     (case nullCheck p of
        Some e \<Rightarrow> Inl e
      | None \<Rightarrow>
          (case resolve fs p of
             Inl e \<Rightarrow> Inl (sys_error e ''stat'' p)
           | Inr q \<Rightarrow>
               (case lookup fs q of
                  None \<Rightarrow> Inl (sys_error ENOENT ''stat'' p)
                | Some (File c) \<Rightarrow> Inr \<lparr>isDirectory = False, size = length c\<rparr>
                | Some Dir \<Rightarrow> Inr \<lparr>isDirectory = True, size = 4096\<rparr>)))"

text \<open>\<^verbatim>\<open>fs.readdir(p)\<close>: the names in a directory, sorted (graceful-fs sorts them).\<close>

definition children :: "filesys \<Rightarrow> string list \<Rightarrow> string list" where
  "children fs q = sort (remdups (map (last \<circ> fst) (filter (\<lambda>(k, _). k \<noteq> [] \<and> butlast k = q) fs)))"

definition fs_readdir :: "filesys \<Rightarrow> string \<Rightarrow> jserror + string list" where
  "fs_readdir fs p =
     (case nullCheck p of
        Some e \<Rightarrow> Inl e
      | None \<Rightarrow>
          (case resolve fs p of
             Inl e \<Rightarrow> Inl (sys_error e ''scandir'' p)
           | Inr q \<Rightarrow>
               (case lookup fs q of
                  None \<Rightarrow> Inl (sys_error ENOENT ''scandir'' p)
                | Some (File _) \<Rightarrow> Inl (sys_error ENOTDIR ''scandir'' p)
                | Some Dir \<Rightarrow> Inr (children fs q))))"

text \<open>
  \<^verbatim>\<open>fs.readFile(p, 'utf8')\<close>: open, then read. Reading a directory fails at the read,
  whose message names no path. The bytes are given back as the string they encode; bytes
  that are not UTF-8, which only an uploaded file can hold, are given back as they are
  (Node would put replacement characters).
\<close>

definition fs_readFile :: "filesys \<Rightarrow> string \<Rightarrow> jserror + string" where
  "fs_readFile fs p =
     (case nullCheck p of
        Some e \<Rightarrow> Inl e
      | None \<Rightarrow>
          (case resolve fs p of
             Inl e \<Rightarrow> Inl (sys_error e ''open'' p)
           | Inr q \<Rightarrow>
               (case lookup fs q of
                  None \<Rightarrow> Inl (sys_error ENOENT ''open'' p)
                | Some (File c) \<Rightarrow> Inr c
                | Some Dir \<Rightarrow> Inl (Error (errno_text EISDIR @ '', read'')))))"

subsection \<open>Writing\<close>

text \<open>
  \<^verbatim>\<open>fs.ensureDir(dir)\<close> of fs-extra, which is \<^verbatim>\<open>fs.mkdir(dir, {recursive: true})\<close>: every
  missing directory on the way is made. A regular file on the way is \<^verbatim>\<open>ENOTDIR\<close>, a
  regular file at the end \<^verbatim>\<open>EEXIST\<close>.
\<close>

fun mkdirs :: "filesys \<Rightarrow> string list \<Rightarrow> string list \<Rightarrow> errno + filesys" where
  "mkdirs fs cur [] =
     (case lookup fs cur of
        None \<Rightarrow> Inr (AList.update cur Dir fs)
      | Some Dir \<Rightarrow> Inr fs
      | Some (File _) \<Rightarrow> Inl EEXIST)"
| "mkdirs fs cur (s # ss) =
     (case lookup fs cur of
        Some (File _) \<Rightarrow> Inl ENOTDIR
      | r \<Rightarrow>
          (let fs' = (if r = None then AList.update cur Dir fs else fs)
           in if s = ''.'' then mkdirs fs' cur ss
              else if s = ''..'' then mkdirs fs' (butlast cur) ss
              else mkdirs fs' (cur @ [s]) ss))"

definition fs_ensureDir :: "filesys \<Rightarrow> string \<Rightarrow> jserror + filesys" where
  "fs_ensureDir fs p =
     (case nullCheck p of
        Some e \<Rightarrow> Inl e
      | None \<Rightarrow>
          (if p = [] then Inl (sys_error ENOENT ''mkdir'' p)
           else
             (case mkdirs fs (start_dir p) (components p) of
                Inl e \<Rightarrow> Inl (sys_error e ''mkdir'' p)
              | Inr fs' \<Rightarrow> Inr fs')))"

text \<open>
  \<^verbatim>\<open>fs.writeFile(p, data)\<close> is three steps of Node: the check of \<^verbatim>\<open>data\<close>, which must be
  a string; \<^verbatim>\<open>open(p, 'w')\<close>, which creates the file or empties the one that is there and
  gives a descriptor; and the write of the bytes through the descriptor, from offset 0.
  A descriptor is identified with the place it was opened at.
\<close>

definition data_check :: "jsval \<Rightarrow> jserror + string" where
  "data_check d =
     (case d of
        JStr s \<Rightarrow> Inr s
      | _ \<Rightarrow> Inl (Error (''The \"data\" argument must be of type string or an instance of '' @
                         ''Buffer, TypedArray, or DataView. '' @ received d)))"

definition fs_open_w :: "filesys \<Rightarrow> string \<Rightarrow> jserror + (string list \<times> filesys)" where
  "fs_open_w fs p =
     (case nullCheck p of
        Some e \<Rightarrow> Inl e
      | None \<Rightarrow>
          (case resolve fs p of
             Inl e \<Rightarrow> Inl (sys_error e ''open'' p)
           | Inr q \<Rightarrow>
               (case lookup fs q of
                  Some Dir \<Rightarrow> Inl (sys_error EISDIR ''open'' p)
                | Some (File _) \<Rightarrow> Inr (q, AList.update q (File []) fs)
                | None \<Rightarrow>
                    (if last p = CHR ''/'' then Inl (sys_error EISDIR ''open'' p)
                     else Inr (q, AList.update q (File []) fs)))))"

definition fs_write :: "filesys \<Rightarrow> string list \<Rightarrow> string \<Rightarrow> filesys" where
  "fs_write fs fd d =
     (case lookup fs fd of
        Some (File c) \<Rightarrow> AList.update fd (File (d @ drop (length d) c)) fs
      | _ \<Rightarrow> fs)"

definition fs_writeFile :: "filesys \<Rightarrow> string \<Rightarrow> jsval \<Rightarrow> jserror + filesys" where
  "fs_writeFile fs p d =
     (case data_check d of
        Inl e \<Rightarrow> Inl e
      | Inr s \<Rightarrow>
          (case fs_open_w fs p of
             Inl e \<Rightarrow> Inl e
           | Inr (fd, fs') \<Rightarrow> Inr (fs_write fs' fd s)))"

text \<open>
  \<^verbatim>\<open>fs.remove(p)\<close> of fs-extra, which is \<^verbatim>\<open>fs.rm(p, {recursive: true, force: true})\<close>:
  the path is looked at with \<^verbatim>\<open>lstat\<close>; \<^verbatim>\<open>ENOENT\<close> there is forgiven (\<^verbatim>\<open>force\<close>), any other
  failure is raised; what is found is removed with all that is below it. The root
  directory itself cannot be removed.
\<close>

definition fs_remove :: "filesys \<Rightarrow> string \<Rightarrow> jserror + filesys" where
  "fs_remove fs p =
     (case nullCheck p of
        Some e \<Rightarrow> Inl e
      | None \<Rightarrow>
          (case resolve fs p of
             Inl ENOENT \<Rightarrow> Inr fs
           | Inl e \<Rightarrow> Inl (sys_error e ''lstat'' p)
           | Inr q \<Rightarrow>
               (case lookup fs q of
                  None \<Rightarrow> Inr fs
                | Some _ \<Rightarrow>
                    (if q = [] then Inl (sys_error EBUSY ''rmdir'' p)
                     else Inr (filter (\<lambda>(k, _). \<not> prefix q k) fs)))))"

section \<open>The handlers of \<^verbatim>\<open>app.js\<close>\<close>

text \<open>
  A response is a status and the value given to \<^verbatim>\<open>res.json\<close>. \<^verbatim>\<open>FILES_DIR\<close> is a parameter
  of every handler; the process reads it once from the environment, with the default
  \<^verbatim>\<open>/var/www/html\<close>.
\<close>

record response =
  status :: nat
  body :: jsval

text \<open>\<^verbatim>\<open>res.status(st).json({ error: msg })\<close>\<close>

definition json_error :: "nat \<Rightarrow> string \<Rightarrow> response" where
  "json_error st msg = \<lparr>status = st, body = JObj [(''error'', JStr msg)]\<rparr>"

text \<open>\<^verbatim>\<open>res.json(v)\<close>\<close>

definition json_ok :: "jsval \<Rightarrow> response" where
  "json_ok v = \<lparr>status = 200, body = v\<rparr>"

definition default_FILES_DIR :: string where
  "default_FILES_DIR = ''/var/www/html''"

subsection \<open>\<^verbatim>\<open>GET /api/files\<close>\<close>

text \<open>
  The details of the files of a listing. The \<^verbatim>\<open>stat\<close> calls are started together by
  \<^verbatim>\<open>Promise.all\<close>; on a file system that holds still the first failure in the order
  of the names is the one raised.
\<close>

fun file_details :: "string \<Rightarrow> filesys \<Rightarrow> string \<Rightarrow> string list \<Rightarrow> jserror + jsval list" where
  "file_details FILES_DIR fs dirPath [] = Inr []"
| "file_details FILES_DIR fs dirPath (file # files) =
     (case path_join [JStr dirPath, JStr file] of
        Inl e \<Rightarrow> Inl e
      | Inr filePath \<Rightarrow>
          (case fs_stat fs filePath of
             Inl e \<Rightarrow> Inl e
           | Inr st \<Rightarrow>
               (case file_details FILES_DIR fs dirPath files of
                  Inl e \<Rightarrow> Inl e
                | Inr ds \<Rightarrow>
                    Inr (JObj [(''name'', JStr file),
                               (''path'', JStr (relative FILES_DIR filePath)),
                               (''isDirectory'', JBool (isDirectory st)),
                               (''size'', JNum (int (size st)))] # ds))))"

definition get_files :: "string \<Rightarrow> filesys \<Rightarrow> jsval \<Rightarrow> response" where
  "get_files FILES_DIR fs query_path =
     (case (if truthy query_path then path_join [JStr FILES_DIR, query_path] else Inr FILES_DIR) of
        Inl e \<Rightarrow> json_error 500 (message e)
      | Inr dirPath \<Rightarrow>
          if \<not> startsWith dirPath FILES_DIR then json_error 403 ''Access denied''
          else
            (case fs_readdir fs dirPath of
               Inl e \<Rightarrow> json_error 500 (message e)
             | Inr files \<Rightarrow>
                 (case file_details FILES_DIR fs dirPath files of
                    Inl e \<Rightarrow> json_error 500 (message e)
                  | Inr fileDetails \<Rightarrow> json_ok (JArr fileDetails))))"

subsection \<open>\<^verbatim>\<open>GET /api/files/content\<close>\<close>

definition get_content :: "string \<Rightarrow> filesys \<Rightarrow> jsval \<Rightarrow> response" where
  "get_content FILES_DIR fs query_path =
     (if \<not> truthy query_path then json_error 400 ''File path is required''
      else
        (case path_join [JStr FILES_DIR, query_path] of
           Inl e \<Rightarrow> json_error 500 (message e)
         | Inr filePath \<Rightarrow>
             if \<not> startsWith filePath FILES_DIR then json_error 403 ''Access denied''
             else
               (case fs_stat fs filePath of
                  Inl e \<Rightarrow> json_error 500 (message e)
                | Inr st \<Rightarrow>
                    if isDirectory st
                    then json_error 400 ''Path points to a directory, not a file''
                    else
                      (case fs_readFile fs filePath of
                         Inl e \<Rightarrow> json_error 500 (message e)
                       | Inr content \<Rightarrow> json_ok (JObj [(''content'', JStr content)])))))"

subsection \<open>\<^verbatim>\<open>POST /api/files\<close>\<close>

text \<open>
  \<^verbatim>\<open>const { filePath, content } = req.body\<close> throws when the body is \<^verbatim>\<open>null\<close> or
  \<^verbatim>\<open>undefined\<close>; the throw is inside the \<^verbatim>\<open>try\<close>.
\<close>

definition destructure :: "jsval \<Rightarrow> jserror + jsval \<times> jsval" where
  "destructure b =
     (if b = JUndefined \<or> b = JNull
      then Inl (Error (''Cannot destructure property '' @ [CHR 0x27] @ ''filePath'' @ [CHR 0x27] @
                       '' of '' @ [CHR 0x27] @ ''req.body'' @ [CHR 0x27] @ '' as it is '' @
                       (if b = JNull then ''null'' else ''undefined'') @ ''.''))
      else Inr (js_get b ''filePath'', js_get b ''content''))"

text \<open>A handler that writes returns its response and the file system it leaves.\<close>

definition post_files :: "string \<Rightarrow> filesys \<Rightarrow> jsval \<Rightarrow> response \<times> filesys" where
  "post_files FILES_DIR fs req_body =
     (case destructure req_body of
        Inl e \<Rightarrow> (json_error 500 (message e), fs)
      | Inr (filePath, content) \<Rightarrow>
          if \<not> truthy filePath then (json_error 400 ''File path is required'', fs)
          else
            (case path_join [JStr FILES_DIR, filePath] of
               Inl e \<Rightarrow> (json_error 500 (message e), fs)
             | Inr fullPath \<Rightarrow>
                 if \<not> startsWith fullPath FILES_DIR then (json_error 403 ''Access denied'', fs)
                 else
                   (case fs_ensureDir fs (dirname fullPath) of
                      Inl e \<Rightarrow> (json_error 500 (message e), fs)
                    | Inr fs1 \<Rightarrow>
                        (case fs_writeFile fs1 fullPath (js_or content (JStr [])) of
                           Inl e \<Rightarrow> (json_error 500 (message e), fs1)
                         | Inr fs2 \<Rightarrow>
                             (json_ok (JObj [(''success'', JBool True), (''path'', filePath)]),
                              fs2)))))"

subsection \<open>\<^verbatim>\<open>DELETE /api/files\<close>\<close>

definition delete_files :: "string \<Rightarrow> filesys \<Rightarrow> jsval \<Rightarrow> response \<times> filesys" where
  "delete_files FILES_DIR fs query_path =
     (let filePath = query_path
      in if \<not> truthy filePath then (json_error 400 ''File path is required'', fs)
         else
           (case path_join [JStr FILES_DIR, filePath] of
              Inl e \<Rightarrow> (json_error 500 (message e), fs)
            | Inr fullPath \<Rightarrow>
                if \<not> startsWith fullPath FILES_DIR then (json_error 403 ''Access denied'', fs)
                else
                  (case fs_remove fs fullPath of
                     Inl e \<Rightarrow> (json_error 500 (message e), fs)
                   | Inr fs' \<Rightarrow> (json_ok (JObj [(''success'', JBool True)]), fs'))))"

subsection \<open>\<^verbatim>\<open>POST /api/upload\<close>\<close>

text \<open>
  \<^verbatim>\<open>req.file\<close> as multer leaves it: absent, or the name the client gave and the path of
  the temporary file. \<^verbatim>\<open>fs.move\<close> of fs-extra is a parameter of the handler: any function
  that, from a file system, a source and a destination, gives the file system it leaves
  and the error it raises, if any.
\<close>

record upload_file =
  originalname :: string
  path :: string

type_synonym move_fn = "filesys \<Rightarrow> string \<Rightarrow> string \<Rightarrow> jserror option \<times> filesys"

definition upload :: "move_fn \<Rightarrow> string \<Rightarrow> filesys \<Rightarrow> upload_file option \<Rightarrow> jsval \<Rightarrow> response \<times> filesys" where
  "upload move FILES_DIR fs req_file body_path =
     (case req_file of
        None \<Rightarrow> (json_error 400 ''No file uploaded'', fs)
      | Some file \<Rightarrow>
          (let targetDir = js_or body_path (JStr [])
           in case path_join [JStr FILES_DIR, targetDir, JStr (originalname file)] of
                Inl e \<Rightarrow> (json_error 500 (message e), fs)
              | Inr targetPath \<Rightarrow>
                  if \<not> startsWith targetPath FILES_DIR then (json_error 403 ''Access denied'', fs)
                  else
                    (case fs_ensureDir fs (dirname targetPath) of
                       Inl e \<Rightarrow> (json_error 500 (message e), fs)
                     | Inr fs1 \<Rightarrow>
                         (case move fs1 (path file) targetPath of
                            (Some e, fs2) \<Rightarrow> (json_error 500 (message e), fs2)
                          | (None, fs2) \<Rightarrow>
                              (json_ok (JObj [(''success'', JBool True),
                                              (''path'', JStr (relative FILES_DIR targetPath))]),
                               fs2)))))"

section \<open>An example tree\<close>

text \<open>
  \<^verbatim>\<open>/var/www/html\<close> with one file, and beside it a directory whose name begins with the
  name of the root.
\<close>

definition example_fs :: filesys where
  "example_fs =
     [([''var''], Dir),
      ([''var'', ''www''], Dir),
      ([''var'', ''www'', ''html''], Dir),
      ([''var'', ''www'', ''html'', ''a.txt''], File ''old''),
      ([''var'', ''www'', ''html-secret''], Dir),
      ([''var'', ''www'', ''html-secret'', ''x''], File ''s3cret'')]"

section \<open>Shapes of error responses\<close>

text \<open>A body that is an object with the one field \<^verbatim>\<open>error\<close>, holding a string.\<close>

fun is_error_body :: "jsval \<Rightarrow> bool" where
  "is_error_body (JObj [(k, JStr m)]) = (k = ''error'')"
| "is_error_body _ = False"

text \<open>The error texts that the handlers word themselves.\<close>

definition handler_messages :: "string list" where
  "handler_messages =
     [''File path is required'', ''Access denied'',
      ''Path points to a directory, not a file'', ''No file uploaded'']"

definition fixed_error :: "response \<Rightarrow> bool" where
  "fixed_error r = (\<exists>m \<in> set handler_messages. body r = JObj [(''error'', JStr m)])"

section \<open>Requests that overlap\<close>

text \<open>
  A handler gives up control at every \<^verbatim>\<open>await\<close>, and inside \<^verbatim>\<open>fs.writeFile\<close> between the
  open and the write. The file-system steps of a \<^verbatim>\<open>POST /api/files\<close> that passed its
  checks with a string to write are, in order: \<^verbatim>\<open>ensureDir\<close> of the parent, the open of
  the target, the write through the descriptor. The handlers take no lock, so the steps
  of two requests may run in any order that keeps the order of each request.
\<close>

datatype step = EnsureDir string | OpenW string | WriteFd string

definition write_steps :: "string \<Rightarrow> string \<Rightarrow> step list" where
  "write_steps fullPath s = [OpenW fullPath, WriteFd s]"

definition post_steps :: "string \<Rightarrow> string \<Rightarrow> step list" where
  "post_steps fullPath s = EnsureDir (dirname fullPath) # write_steps fullPath s"

text \<open>
  The state of a run: the file system, the descriptor each request holds, and the error
  that ended a request (which then is answered with status 500 and takes no more steps).
\<close>

record run_state =
  files :: filesys
  fds :: "nat \<Rightarrow> string list option"
  failed :: "nat \<Rightarrow> jserror option"

fun exec_step :: "run_state \<Rightarrow> nat \<times> step \<Rightarrow> run_state" where
  "exec_step st (i, a) =
     (if failed st i \<noteq> None then st
      else
        (case a of
           EnsureDir d \<Rightarrow>
             (case fs_ensureDir (files st) d of
                Inl e \<Rightarrow> st\<lparr>failed := (failed st)(i \<mapsto> e)\<rparr>
              | Inr fs' \<Rightarrow> st\<lparr>files := fs'\<rparr>)
         | OpenW p \<Rightarrow>
             (case fs_open_w (files st) p of
                Inl e \<Rightarrow> st\<lparr>failed := (failed st)(i \<mapsto> e)\<rparr>
              | Inr (q, fs') \<Rightarrow> st\<lparr>files := fs', fds := (fds st)(i \<mapsto> q)\<rparr>)
         | WriteFd s \<Rightarrow>
             (case fds st i of
                None \<Rightarrow> st
              | Some q \<Rightarrow> st\<lparr>files := fs_write (files st) q s\<rparr>)))"

declare exec_step.simps [simp del]

definition run :: "(nat \<times> step) list \<Rightarrow> filesys \<Rightarrow> run_state" where
  "run sched fs = foldl exec_step \<lparr>files = fs, fds = (\<lambda>_. None), failed = (\<lambda>_. None)\<rparr> sched"

text \<open>A file system in which the path \<^verbatim>\<open>p\<close> leads to the regular file at \<^verbatim>\<open>fd\<close>, holding \<^verbatim>\<open>c\<close>.\<close>

definition leads_to :: "string \<Rightarrow> string list \<Rightarrow> filesys \<Rightarrow> string \<Rightarrow> bool" where
  "leads_to p fd fs c =
     (nullCheck p = None \<and> p \<noteq> [] \<and> last p \<noteq> CHR ''/'' \<and> fd \<noteq> [] \<and>
      walk fs (start_dir p) (components p) = Inr fd \<and> lookup fs fd = Some (File c))"

text \<open>
  A file system in which \<^verbatim>\<open>p\<close> can be opened for writing, at \<^verbatim>\<open>fd\<close>; and one in which
  \<^verbatim>\<open>d\<close> is a directory.
\<close>

definition openable :: "string \<Rightarrow> string list \<Rightarrow> filesys \<Rightarrow> bool" where
  "openable p fd fs =
     (nullCheck p = None \<and> p \<noteq> [] \<and> last p \<noteq> CHR ''/'' \<and> fd \<noteq> [] \<and>
      walk fs (start_dir p) (components p) = Inr fd \<and> lookup fs fd \<noteq> Some Dir)"

definition is_dir :: "string \<Rightarrow> filesys \<Rightarrow> bool" where
  "is_dir d fs =
     (nullCheck d = None \<and> d \<noteq> [] \<and>
      (case walk fs (start_dir d) (components d) of
         Inl _ \<Rightarrow> False
       | Inr q \<Rightarrow> lookup fs q = Some Dir))"

text \<open>What holds all along a run of the steps of writes of one file.\<close>

definition steady :: "string \<Rightarrow> string \<Rightarrow> string list \<Rightarrow> run_state \<Rightarrow> bool" where
  "steady d p fd st =
     (is_dir d (files st) \<and> openable p fd (files st) \<and> failed st = (\<lambda>_. None) \<and>
      (\<forall>i q. fds st i = Some q \<longrightarrow> q = fd))"


section \<open>In front of the handlers\<close>

text \<open>
  \<^verbatim>\<open>app.use(express.json())\<close> runs before every route. The body of a request as it meets
  it: none (or not of a JSON content type), a text that \<^verbatim>\<open>JSON.parse\<close> turns into a value,
  or a text that \<^verbatim>\<open>JSON.parse\<close> refuses.
\<close>

datatype raw_body = NoBody | JsonText jsval | BadJsonText

text \<open>
  The parser is strict: the value must be an object or an array. It leaves \<^verbatim>\<open>{}\<close> as
  \<^verbatim>\<open>req.body\<close> when there is nothing to parse. \<^verbatim>\<open>None\<close> stands for the error it raises
  otherwise, whose status is 400.
\<close>

fun express_json :: "raw_body \<Rightarrow> jsval option" where
  "express_json NoBody = Some (JObj [])"
| "express_json (JsonText (JObj kvs)) = Some (JObj kvs)"
| "express_json (JsonText (JArr vs)) = Some (JArr vs)"
| "express_json (JsonText _) = None"
| "express_json BadJsonText = None"

text \<open>
  What a route answers: a JSON response of its handler, or, as \<^verbatim>\<open>app.js\<close> registers no
  error middleware, the page of the default error handler of Express, of content type
  \<^verbatim>\<open>text/html\<close>. With \<^verbatim>\<open>NODE_ENV=production\<close>, as \<^verbatim>\<open>docker-compose.yml\<close> sets it, the page
  shows the name of the status.
\<close>

datatype reply = Json response | Html nat string

definition html_document :: "string \<Rightarrow> string" where
  "html_document msg =
     ''<!DOCTYPE html>'' @ [CHR 0x0A] @ ''<html lang=\"en\">'' @ [CHR 0x0A] @
     ''<head>'' @ [CHR 0x0A] @ ''<meta charset=\"utf-8\">'' @ [CHR 0x0A] @
     ''<title>Error</title>'' @ [CHR 0x0A] @ ''</head>'' @ [CHR 0x0A] @
     ''<body>'' @ [CHR 0x0A] @ ''<pre>'' @ msg @ ''</pre>'' @ [CHR 0x0A] @
     ''</body>'' @ [CHR 0x0A] @ ''</html>'' @ [CHR 0x0A]"

definition bad_request_page :: reply where
  "bad_request_page = Html 400 (html_document ''Bad Request'')"

definition behind_json ::
  "raw_body \<Rightarrow> filesys \<Rightarrow> (jsval \<Rightarrow> response \<times> filesys) \<Rightarrow> reply \<times> filesys" where
  "behind_json raw fs handler =
     (case express_json raw of
        None \<Rightarrow> (bad_request_page, fs)
      | Some req_body \<Rightarrow> (case handler req_body of (r, fs') \<Rightarrow> (Json r, fs')))"

text \<open>
  The five routes. A request to \<^verbatim>\<open>/api/upload\<close> is either not multipart, and then multer
  leaves \<^verbatim>\<open>req.file\<close> absent, or multipart, given here by what multer made of it: the
  file, if any, and the \<^verbatim>\<open>path\<close> field. (What multer refuses by itself is left out.)
\<close>

definition route_get_files :: "string \<Rightarrow> filesys \<Rightarrow> raw_body \<Rightarrow> jsval \<Rightarrow> reply \<times> filesys" where
  "route_get_files FILES_DIR fs raw query_path =
     behind_json raw fs (\<lambda>_. (get_files FILES_DIR fs query_path, fs))"

definition route_get_content :: "string \<Rightarrow> filesys \<Rightarrow> raw_body \<Rightarrow> jsval \<Rightarrow> reply \<times> filesys" where
  "route_get_content FILES_DIR fs raw query_path =
     behind_json raw fs (\<lambda>_. (get_content FILES_DIR fs query_path, fs))"

definition route_post_files :: "string \<Rightarrow> filesys \<Rightarrow> raw_body \<Rightarrow> reply \<times> filesys" where
  "route_post_files FILES_DIR fs raw = behind_json raw fs (post_files FILES_DIR fs)"

definition route_delete_files :: "string \<Rightarrow> filesys \<Rightarrow> raw_body \<Rightarrow> jsval \<Rightarrow> reply \<times> filesys" where
  "route_delete_files FILES_DIR fs raw query_path =
     behind_json raw fs (\<lambda>_. delete_files FILES_DIR fs query_path)"

datatype upload_request = NotMultipart raw_body | Multipart "upload_file option" jsval

fun route_upload :: "move_fn \<Rightarrow> string \<Rightarrow> filesys \<Rightarrow> upload_request \<Rightarrow> reply \<times> filesys" where
  "route_upload move FILES_DIR fs (NotMultipart raw) =
     behind_json raw fs (\<lambda>req_body. upload move FILES_DIR fs None (js_get req_body ''path''))"
| "route_upload move FILES_DIR fs (Multipart req_file body_path) =
     (case upload move FILES_DIR fs req_file body_path of (r, fs') \<Rightarrow> (Json r, fs'))"

text \<open>A reply that is a JSON object with the one field \<^verbatim>\<open>error\<close>, holding a string.\<close>

fun is_json_error :: "reply \<Rightarrow> bool" where
  "is_json_error (Json r) = is_error_body (body r)"
| "is_json_error (Html _ _) = False"

fun reply_status :: "reply \<Rightarrow> nat" where
  "reply_status (Json r) = status r"
| "reply_status (Html st _) = st"

section \<open>Plain components\<close>

text \<open>
  Components as \<^verbatim>\<open>path.join\<close> leaves them in an absolute path: not empty, not \<^verbatim>\<open>.\<close> or
  \<^verbatim>\<open>..\<close>, and without a slash.
\<close>

definition plain :: "string list \<Rightarrow> bool" where
  "plain xs = (\<forall>s \<in> set xs. s \<noteq> [] \<and> s \<noteq> ''.'' \<and> s \<noteq> ''..'' \<and> CHR ''/'' \<notin> set s)"

section \<open>Properties\<close>

lemmas path_defs = path_join_def normalize_def dirname_def startsWith_def components_def
  start_dir_def resolve_segs_def relative_def cwd_def

lemmas fs_defs = lookup_def resolve_def nullCheck_def sys_error_def fs_stat_def fs_readdir_def
  fs_readFile_def fs_ensureDir_def data_check_def fs_open_w_def fs_write_def fs_writeFile_def
  fs_remove_def children_def inspect_path_def

lemmas handler_defs = json_error_def json_ok_def default_FILES_DIR_def get_files_def
  get_content_def destructure_def post_files_def delete_files_def upload_def js_or_def

subsection \<open>Lookup after an update of the table\<close>

lemma lookup_update:
  "k \<noteq> [] \<Longrightarrow> lookup (AList.update k e fs) q = (if q = k then Some e else lookup fs q)"
  by (simp add: lookup_def update_conv')

text \<open>A walk steps through directories only, so it does not see a change elsewhere.\<close>

lemma walk_update:
  "walk fs cur ss = Inr q \<Longrightarrow> lookup fs k \<noteq> Some Dir \<Longrightarrow> k \<noteq> [] \<Longrightarrow>
   walk (AList.update k e fs) cur ss = Inr q"
proof (induction ss arbitrary: cur)
  case Nil
  then show ?case by simp
next
  case (Cons s ss)
  from Cons.prems(1) have d: "lookup fs cur = Some Dir"
    by (auto split: option.splits entry.splits)
  with Cons.prems(2) have "cur \<noteq> k" by auto
  with Cons.prems(3) d have d': "lookup (AList.update k e fs) cur = Some Dir"
    by (simp add: lookup_update)
  from Cons.prems(1) d Cons.IH[OF _ Cons.prems(2,3)] d'
  show ?case by (auto split: if_splits)
qed

lemma open_w_success:
  assumes "fs_open_w fs p = Inr (fd, fs')"
  shows "nullCheck p = None \<and> p \<noteq> [] \<and> last p \<noteq> CHR ''/'' \<and> resolve fs p = Inr fd \<and>
         walk fs (start_dir p) (components p) = Inr fd \<and>
         lookup fs fd \<noteq> Some Dir \<and> fd \<noteq> [] \<and> fs' = AList.update fd (File []) fs"
  using assms
  by (auto simp: fs_open_w_def resolve_def lookup_def
      split: option.splits sum.splits entry.splits if_splits)

text \<open>What a file holds once it was opened for writing and written.\<close>

lemma written_file:
  assumes "fs_open_w fs p = Inr (fd, fs2)"
  shows "resolve (fs_write fs2 fd s) p = Inr fd \<and> lookup (fs_write fs2 fd s) fd = Some (File s)
         \<and> nullCheck p = None"
proof -
  from open_w_success[OF assms] have
    n: "nullCheck p = None" and ne: "p \<noteq> []" and l: "last p \<noteq> CHR ''/''" and
    w: "walk fs (start_dir p) (components p) = Inr fd" and
    nd: "lookup fs fd \<noteq> Some Dir" and fd: "fd \<noteq> []" and
    fs2: "fs2 = AList.update fd (File []) fs" by auto
  have l2: "lookup fs2 fd = Some (File [])" using fd fs2 by (simp add: lookup_update)
  have w2: "walk fs2 (start_dir p) (components p) = Inr fd"
    unfolding fs2 by (rule walk_update[OF w nd fd])
  have fw: "fs_write fs2 fd s = AList.update fd (File s) fs2"
    using l2 by (simp add: fs_write_def)
  have l3: "lookup (fs_write fs2 fd s) fd = Some (File s)"
    using fd by (simp add: fw lookup_update)
  have "lookup fs2 fd \<noteq> Some Dir" using l2 by simp
  from walk_update[OF w2 this fd]
  have w3: "walk (fs_write fs2 fd s) (start_dir p) (components p) = Inr fd"
    by (simp add: fw)
  have "resolve (fs_write fs2 fd s) p = Inr fd"
    using ne l w3 l3 by (simp add: resolve_def)
  with l3 n show ?thesis by simp
qed

text \<open>The calls behind a \<^verbatim>\<open>POST /api/files\<close> that answered 200.\<close>

lemma post_files_success:
  assumes "post_files FILES_DIR fs b = (r, fs')" and "status r = 200"
  shows "\<exists>fullPath s fs1 fd fs2.
           path_join [JStr FILES_DIR, js_get b ''filePath''] = Inr fullPath \<and>
           truthy (js_get b ''filePath'') \<and>
           startsWith fullPath FILES_DIR \<and>
           js_or (js_get b ''content'') (JStr []) = JStr s \<and>
           fs_ensureDir fs (dirname fullPath) = Inr fs1 \<and>
           fs_open_w fs1 fullPath = Inr (fd, fs2) \<and>
           fs' = fs_write fs2 fd s \<and>
           r = json_ok (JObj [(''success'', JBool True), (''path'', js_get b ''filePath'')])"
  using assms
  by (auto simp: post_files_def destructure_def json_error_def json_ok_def fs_writeFile_def
        data_check_def
      split: sum.splits if_splits prod.splits jsval.splits)

lemma post_example:
  "post_files default_FILES_DIR example_fs
     (JObj [(''filePath'', JStr ''notes/b.txt''), (''content'', JStr ''hello'')]) =
   (json_ok (JObj [(''success'', JBool True), (''path'', JStr ''notes/b.txt'')]),
    example_fs @ [([''var'', ''www'', ''html'', ''notes''], Dir),
                  ([''var'', ''www'', ''html'', ''notes'', ''b.txt''], File ''hello'')])"
  by (simp add: path_defs fs_defs handler_defs example_fs_def)

subsection \<open>Write, then read\<close>

text \<open>
  Claim C7. Whenever \<^verbatim>\<open>POST /api/files\<close> answers 200, a \<^verbatim>\<open>GET /api/files/content\<close> of the
  same path on the file system it leaves answers 200 with exactly what was written: the
  \<^verbatim>\<open>content\<close> of the body, or the empty string when that was absent or falsy.
\<close>

theorem write_then_read:
  assumes "post_files FILES_DIR fs b = (r, fs')" and "status r = 200"
  shows "get_content FILES_DIR fs' (js_get b ''filePath'') =
         json_ok (JObj [(''content'', js_or (js_get b ''content'') (JStr []))])"
proof -
  from post_files_success[OF assms] obtain fullPath s fs1 fd fs2 where
    j: "path_join [JStr FILES_DIR, js_get b ''filePath''] = Inr fullPath" and
    t: "truthy (js_get b ''filePath'')" and
    sw: "startsWith fullPath FILES_DIR" and
    d: "js_or (js_get b ''content'') (JStr []) = JStr s" and
    o: "fs_open_w fs1 fullPath = Inr (fd, fs2)" and
    f: "fs' = fs_write fs2 fd s" by blast
  from written_file[OF o, of s] f have
    "resolve fs' fullPath = Inr fd" "lookup fs' fd = Some (File s)" "nullCheck fullPath = None"
    by auto
  then have "fs_stat fs' fullPath = Inr \<lparr>isDirectory = False, size = length s\<rparr>"
    and "fs_readFile fs' fullPath = Inr s"
    by (simp_all add: fs_stat_def fs_readFile_def)
  with j t sw d show ?thesis by (simp add: get_content_def)
qed

theorem write_then_read_witness:
  "status (fst (post_files default_FILES_DIR example_fs
      (JObj [(''filePath'', JStr ''notes/b.txt''), (''content'', JStr ''hello'')]))) = 200 \<and>
   get_content default_FILES_DIR
     (snd (post_files default_FILES_DIR example_fs
        (JObj [(''filePath'', JStr ''notes/b.txt''), (''content'', JStr ''hello'')])))
     (JStr ''notes/b.txt'') =
   json_ok (JObj [(''content'', JStr ''hello'')])"
proof -
  have s: "status (json_ok (JObj [(''success'', JBool True), (''path'', JStr ''notes/b.txt'')])) = 200"
    by (simp add: json_ok_def)
  from write_then_read[OF post_example s] s show ?thesis
    by (simp add: post_example js_or_def)
qed

subsection \<open>The containment check\<close>

text \<open>
  Claim C1, at \<^verbatim>\<open>FILES_DIR=/var/www/html\<close> with the sibling directory
  \<^verbatim>\<open>/var/www/html-secret\<close>: the path \<^verbatim>\<open>../html-secret\<close> joins to
  \<^verbatim>\<open>/var/www/html-secret\<close>, which is not below the root component by component, yet
  begins with the root as a string. \<^verbatim>\<open>GET /api/files\<close> lists the sibling directory and
  \<^verbatim>\<open>POST /api/files\<close> overwrites a file in it, both with status 200 and not 403. A path
  that leaves the root to a place whose name does not begin with the root's, such as
  \<^verbatim>\<open>../../etc\<close>, is answered with 403.
\<close>

theorem sibling_directory_not_denied:
  "get_files default_FILES_DIR example_fs (JStr ''../html-secret'') =
     json_ok (JArr [JObj [(''name'', JStr ''x''), (''path'', JStr ''../html-secret/x''),
                          (''isDirectory'', JBool False), (''size'', JNum 6)]]) \<and>
   post_files default_FILES_DIR example_fs
     (JObj [(''filePath'', JStr ''../html-secret/x''), (''content'', JStr ''pwn'')]) =
     (json_ok (JObj [(''success'', JBool True), (''path'', JStr ''../html-secret/x'')]),
      [([''var''], Dir),
       ([''var'', ''www''], Dir),
       ([''var'', ''www'', ''html''], Dir),
       ([''var'', ''www'', ''html'', ''a.txt''], File ''old''),
       ([''var'', ''www'', ''html-secret''], Dir),
       ([''var'', ''www'', ''html-secret'', ''x''], File ''pwn'')]) \<and>
   path_join [JStr default_FILES_DIR, JStr ''../html-secret''] = Inr ''/var/www/html-secret'' \<and>
   \<not> prefix (resolve_segs default_FILES_DIR) (resolve_segs ''/var/www/html-secret'') \<and>
   get_files default_FILES_DIR example_fs (JStr ''../../etc'') = json_error 403 ''Access denied''"
  by (simp add: path_defs fs_defs handler_defs example_fs_def)

subsection \<open>Reading the content of a directory\<close>

text \<open>
  Claim C8. When the path of a \<^verbatim>\<open>GET /api/files/content\<close> passes the check and what it
  names is a directory, the answer is status 400 with the error
  \<^verbatim>\<open>Path points to a directory, not a file\<close>, and no content.
\<close>

theorem content_of_directory:
  assumes "truthy query_path"
    and "path_join [JStr FILES_DIR, query_path] = Inr filePath"
    and "startsWith filePath FILES_DIR"
    and "nullCheck filePath = None"
    and "resolve fs filePath = Inr q"
    and "lookup fs q = Some Dir"
  shows "get_content FILES_DIR fs query_path =
         json_error 400 ''Path points to a directory, not a file''"
  using assms by (simp add: get_content_def fs_stat_def)

theorem content_of_directory_witness:
  "truthy (JStr ''.'') \<and>
   path_join [JStr default_FILES_DIR, JStr ''.''] = Inr ''/var/www/html'' \<and>
   startsWith ''/var/www/html'' default_FILES_DIR \<and>
   nullCheck ''/var/www/html'' = None \<and>
   resolve example_fs ''/var/www/html'' = Inr [''var'', ''www'', ''html''] \<and>
   lookup example_fs [''var'', ''www'', ''html''] = Some Dir \<and>
   get_content default_FILES_DIR example_fs (JStr ''.'') =
     json_error 400 ''Path points to a directory, not a file''"
proof -
  have h: "truthy (JStr ''.'')"
    "path_join [JStr default_FILES_DIR, JStr ''.''] = Inr ''/var/www/html''"
    "startsWith ''/var/www/html'' default_FILES_DIR"
    "nullCheck ''/var/www/html'' = None"
    "resolve example_fs ''/var/www/html'' = Inr [''var'', ''www'', ''html'']"
    "lookup example_fs [''var'', ''www'', ''html''] = Some Dir"
    by (simp_all add: path_defs fs_defs handler_defs example_fs_def)
  from content_of_directory[OF h] h show ?thesis by simp
qed

subsection \<open>A null byte in the path\<close>




subsection \<open>Requests that overlap: the lemmas\<close>

lemma leads_to_opened:
  "fs_open_w fs p = Inr (fd, fs2) \<Longrightarrow> leads_to p fd fs2 []"
  using open_w_success[of fs p fd fs2] walk_update[of fs "start_dir p" "components p" fd fd "File []"]
  by (simp add: leads_to_def lookup_update)

lemma leads_to_update:
  "leads_to p fd fs c \<Longrightarrow> leads_to p fd (AList.update fd (File c') fs) c'"
  using walk_update[of fs "start_dir p" "components p" fd fd "File c'"]
  by (simp add: leads_to_def lookup_update)

lemma leads_to_open:
  "leads_to p fd fs c \<Longrightarrow> fs_open_w fs p = Inr (fd, AList.update fd (File []) fs)"
  by (simp add: leads_to_def fs_open_w_def resolve_def)

lemma leads_to_write:
  "leads_to p fd fs c \<Longrightarrow> fs_write fs fd s = AList.update fd (File (s @ drop (length s) c)) fs"
  by (simp add: leads_to_def fs_write_def)

lemma leads_to_read:
  "leads_to p fd fs c \<Longrightarrow> fs_readFile fs p = Inr c"
  by (simp add: leads_to_def fs_readFile_def resolve_def)

lemma shuffles_two:
  "sched \<in> shuffles [x1, x2] [y1, y2] \<Longrightarrow>
   sched \<in> {[x1, x2, y1, y2], [x1, y1, x2, y2], [x1, y1, y2, x2],
             [y1, x1, x2, y2], [y1, x1, y2, x2], [y1, y2, x1, x2]}"
  by (auto simp: shuffles.simps)

text \<open>Run alone, the steps of a request are its handler.\<close>

lemma post_files_run:
  assumes "b \<noteq> JUndefined" and "b \<noteq> JNull"
    and "truthy (js_get b ''filePath'')"
    and "path_join [JStr FILES_DIR, js_get b ''filePath''] = Inr fullPath"
    and "startsWith fullPath FILES_DIR"
    and "js_or (js_get b ''content'') (JStr []) = JStr s"
  shows "files (run (map (Pair i) (post_steps fullPath s)) fs) = snd (post_files FILES_DIR fs b) \<and>
         (failed (run (map (Pair i) (post_steps fullPath s)) fs) i = None) =
           (status (fst (post_files FILES_DIR fs b)) = 200)"
  using assms
  by (simp add: run_def exec_step.simps post_steps_def write_steps_def post_files_def destructure_def
      fs_writeFile_def data_check_def json_error_def json_ok_def split: sum.splits prod.splits)

text \<open>The four steps of two writes of one file, in three of their six orders.\<close>

lemma two_writes_run:
  assumes o: "fs_open_w fs p = Inr (fd, fs2)"
    and s: "sched \<in> {[(i, OpenW p), (i, WriteFd a), (j, OpenW p), (j, WriteFd b)],
                      [(i, OpenW p), (j, OpenW p), (i, WriteFd a), (j, WriteFd b)],
                      [(i, OpenW p), (j, OpenW p), (j, WriteFd b), (i, WriteFd a)]}"
    and ij: "i \<noteq> j"
  shows "failed (run sched fs) = (\<lambda>_. None) \<and>
         (\<exists>c \<in> {b, b @ drop (length b) a, a @ drop (length a) b}.
            fs_readFile (files (run sched fs)) p = Inr c)"
proof -
  note l0 = leads_to_opened[OF o]
  note r = leads_to_open leads_to_write leads_to_update leads_to_read
  from s consider
      "sched = [(i, OpenW p), (i, WriteFd a), (j, OpenW p), (j, WriteFd b)]"
    | "sched = [(i, OpenW p), (j, OpenW p), (i, WriteFd a), (j, WriteFd b)]"
    | "sched = [(i, OpenW p), (j, OpenW p), (j, WriteFd b), (i, WriteFd a)]" by auto
  then show ?thesis
  proof cases
    case 1
    have w1: "leads_to p fd (AList.update fd (File a) fs2) a"
      using leads_to_update[OF l0] .
    have w2: "leads_to p fd (AList.update fd (File []) (AList.update fd (File a) fs2)) []"
      using leads_to_update[OF w1] .
    have w3: "leads_to p fd (AList.update fd (File b) (AList.update fd (File [])
                (AList.update fd (File a) fs2))) b"
      using leads_to_update[OF w2] .
    show ?thesis
      using ij o leads_to_write[OF l0, of a] leads_to_open[OF w1] leads_to_write[OF w2, of b]
        leads_to_read[OF w3]
      by (simp add: 1 run_def exec_step.simps)
  next
    case 2
    have w1: "leads_to p fd (AList.update fd (File []) fs2) []"
      using leads_to_update[OF l0] .
    have w2: "leads_to p fd (AList.update fd (File a) (AList.update fd (File []) fs2)) a"
      using leads_to_update[OF w1] .
    have w3: "leads_to p fd (AList.update fd (File (b @ drop (length b) a))
                (AList.update fd (File a) (AList.update fd (File []) fs2))) (b @ drop (length b) a)"
      using leads_to_update[OF w2] .
    show ?thesis
      using ij o leads_to_open[OF l0] leads_to_write[OF w1, of a] leads_to_write[OF w2, of b]
        leads_to_read[OF w3]
      by (simp add: 2 run_def exec_step.simps)
  next
    case 3
    have w1: "leads_to p fd (AList.update fd (File []) fs2) []"
      using leads_to_update[OF l0] .
    have w2: "leads_to p fd (AList.update fd (File b) (AList.update fd (File []) fs2)) b"
      using leads_to_update[OF w1] .
    have w3: "leads_to p fd (AList.update fd (File (a @ drop (length a) b))
                (AList.update fd (File b) (AList.update fd (File []) fs2))) (a @ drop (length a) b)"
      using leads_to_update[OF w2] .
    show ?thesis
      using ij o leads_to_open[OF l0] leads_to_write[OF w1, of b] leads_to_write[OF w2, of a]
        leads_to_read[OF w3]
      by (simp add: 3 run_def exec_step.simps)
  qed
qed

lemma mkdirs_noop:
  "walk fs cur ss = Inr q \<Longrightarrow> lookup fs q = Some Dir \<Longrightarrow> mkdirs fs cur ss = Inr fs"
proof (induction ss arbitrary: cur)
  case Nil
  then show ?case by simp
next
  case (Cons s ss)
  from Cons.prems(1) have d: "lookup fs cur = Some Dir"
    by (auto split: option.splits entry.splits)
  with Cons.prems Cons.IH show ?case by (auto split: if_splits)
qed

lemma is_dir_ensureDir: "is_dir d fs \<Longrightarrow> fs_ensureDir fs d = Inr fs"
  by (auto simp: is_dir_def fs_ensureDir_def mkdirs_noop split: sum.splits)

lemma stat_is_dir: "fs_stat fs d = Inr st \<Longrightarrow> isDirectory st \<Longrightarrow> is_dir d fs"
  by (auto simp: fs_stat_def is_dir_def resolve_def
      split: option.splits sum.splits entry.splits if_splits)

lemma is_dir_update:
  assumes "is_dir d fs" and "lookup fs k \<noteq> Some Dir" and "k \<noteq> []"
  shows "is_dir d (AList.update k (File c) fs)"
proof -
  from assms(1) obtain q where w: "walk fs (start_dir d) (components d) = Inr q"
    and l: "lookup fs q = Some Dir" and n: "nullCheck d = None" "d \<noteq> []"
    by (auto simp: is_dir_def split: sum.splits)
  from l assms(2) have "q \<noteq> k" by auto
  with walk_update[OF w assms(2,3), of "File c"] l n assms(3) show ?thesis
    by (simp add: is_dir_def lookup_update)
qed

lemma openable_update:
  "openable p fd fs \<Longrightarrow> openable p fd (AList.update fd (File c) fs)"
  using walk_update[of fs "start_dir p" "components p" fd fd "File c"]
  by (simp add: openable_def lookup_update)

lemma openable_open:
  "openable p fd fs \<Longrightarrow> fs_open_w fs p = Inr (fd, AList.update fd (File []) fs)"
  by (auto simp: openable_def fs_open_w_def resolve_def split: option.splits entry.splits)

lemma open_openable: "fs_open_w fs p = Inr (fd, fs2) \<Longrightarrow> openable p fd fs"
  using open_w_success[of fs p fd fs2] by (simp add: openable_def)

lemma steady_files:
  assumes "steady d p fd st" and "is_dir d fs'" and "openable p fd fs'"
  shows "steady d p fd (st\<lparr>files := fs'\<rparr>)"
  using assms by (simp add: steady_def)

lemma steady_step:
  assumes "steady d p fd st" and "a = EnsureDir d \<or> a = OpenW p \<or> (\<exists>s. a = WriteFd s)"
  shows "steady d p fd (exec_step st (i, a)) \<and> (a = EnsureDir d \<longrightarrow> exec_step st (i, a) = st)"
proof -
  from assms(1) have dd: "is_dir d (files st)" and oo: "openable p fd (files st)"
    and ff: "failed st i = None" and qq: "\<forall>q. fds st i = Some q \<longrightarrow> q = fd"
    by (simp_all add: steady_def)
  from oo have nd: "lookup (files st) fd \<noteq> Some Dir" and fd: "fd \<noteq> []"
    by (simp_all add: openable_def)
  from assms(2) consider "a = EnsureDir d" | "a = OpenW p" | s where "a = WriteFd s" by auto
  then show ?thesis
  proof cases
    case 1
    have "exec_step st (i, a) = st"
      using ff is_dir_ensureDir[OF dd] by (simp add: 1 exec_step.simps)
    with assms(1) 1 show ?thesis by simp
  next
    case 2
    have e: "exec_step st (i, a) =
          st\<lparr>files := AList.update fd (File []) (files st), fds := (fds st)(i \<mapsto> fd)\<rparr>"
      using ff openable_open[OF oo] by (simp add: 2 exec_step.simps)
    have "steady d p fd (st\<lparr>files := AList.update fd (File []) (files st),
                              fds := (fds st)(i \<mapsto> fd)\<rparr>)"
      using assms(1) openable_update[OF oo, of "[]"] is_dir_update[OF dd nd fd, of "[]"]
      by (simp add: steady_def)
    with e 2 show ?thesis by simp
  next
    case 3
    show ?thesis
    proof (cases "fds st i")
      case None
      then have "exec_step st (i, a) = st" using ff by (simp add: 3 exec_step.simps)
      with assms(1) 3 show ?thesis by simp
    next
      case (Some q)
      with qq have q: "fds st i = Some fd" by simp
      show ?thesis
      proof (cases "\<exists>c. lookup (files st) fd = Some (File c)")
        case False
        then have "fs_write (files st) fd s = files st"
          by (auto simp: fs_write_def split: option.splits entry.splits)
        then have "exec_step st (i, a) = st" using ff q by (simp add: 3 exec_step.simps)
        with assms(1) 3 show ?thesis by simp
      next
        case True
        then obtain c where c: "lookup (files st) fd = Some (File c)" by blast
        have w: "fs_write (files st) fd s = AList.update fd (File (s @ drop (length s) c)) (files st)"
          using c by (simp add: fs_write_def)
        have e: "exec_step st (i, a) =
            st\<lparr>files := AList.update fd (File (s @ drop (length s) c)) (files st)\<rparr>"
          using ff q w by (simp add: 3 exec_step.simps)
        from steady_files[OF assms(1) is_dir_update[OF dd nd fd] openable_update[OF oo]]
        have "steady d p fd (st\<lparr>files := AList.update fd (File (s @ drop (length s) c)) (files st)\<rparr>)" .
        with e 3 show ?thesis by simp
      qed
    qed
  qed
qed

lemma ensure_steps_skipped:
  assumes "steady d p fd st"
    and "\<forall>(i, a) \<in> set sched. a = EnsureDir d \<or> a = OpenW p \<or> (\<exists>s. a = WriteFd s)"
  shows "foldl exec_step st sched = foldl exec_step st (filter (\<lambda>(i, a). a \<noteq> EnsureDir d) sched)"
  using assms
proof (induction sched arbitrary: st)
  case Nil
  then show ?case by simp
next
  case (Cons x sched)
  obtain i a where x: "x = (i, a)" by (cases x)
  from Cons.prems(2) x have a: "a = EnsureDir d \<or> a = OpenW p \<or> (\<exists>s. a = WriteFd s)" by simp
  from steady_step[OF Cons.prems(1) a, of i]
  have s': "steady d p fd (exec_step st (i, a))"
    and e: "a = EnsureDir d \<Longrightarrow> exec_step st (i, a) = st" by auto
  from Cons.prems(2) have r: "\<forall>(i, a) \<in> set sched. a = EnsureDir d \<or> a = OpenW p \<or> (\<exists>s. a = WriteFd s)"
    by simp
  show ?case
  proof (cases "a = EnsureDir d")
    case True
    with e Cons.IH[OF Cons.prems(1) r] x show ?thesis by simp
  next
    case False
    with Cons.IH[OF s' r] x show ?thesis by simp
  qed
qed

subsection \<open>How a file is written\<close>

text \<open>
  Claim C2, as stated, fails at an overwrite of \<^verbatim>\<open>a.txt\<close>, which holds \<^verbatim>\<open>old\<close>. The handler
  opens the target itself; after the open and before the write the file is there and
  empty, the old content is gone and the new one not yet written, and there is no other
  file. This is the state that a reader at that moment sees and that an interruption
  there leaves.
\<close>

theorem write_in_place_counterexample:
  "fs_ensureDir example_fs (dirname ''/var/www/html/a.txt'') = Inr example_fs \<and>
   fs_open_w example_fs ''/var/www/html/a.txt'' =
     Inr ([''var'', ''www'', ''html'', ''a.txt''],
          [([''var''], Dir),
           ([''var'', ''www''], Dir),
           ([''var'', ''www'', ''html''], Dir),
           ([''var'', ''www'', ''html'', ''a.txt''], File []),
           ([''var'', ''www'', ''html-secret''], Dir),
           ([''var'', ''www'', ''html-secret'', ''x''], File ''s3cret'')]) \<and>
   post_files default_FILES_DIR example_fs
     (JObj [(''filePath'', JStr ''a.txt''), (''content'', JStr ''new content'')]) =
     (json_ok (JObj [(''success'', JBool True), (''path'', JStr ''a.txt'')]),
      fs_write
          [([''var''], Dir),
           ([''var'', ''www''], Dir),
           ([''var'', ''www'', ''html''], Dir),
           ([''var'', ''www'', ''html'', ''a.txt''], File []),
           ([''var'', ''www'', ''html-secret''], Dir),
           ([''var'', ''www'', ''html-secret'', ''x''], File ''s3cret'')]
          [''var'', ''www'', ''html'', ''a.txt''] ''new content'') \<and>
   fs_readFile example_fs ''/var/www/html/a.txt'' = Inr ''old''"
  by (simp add: path_defs fs_defs handler_defs example_fs_def)

text \<open>
  Claim C2, amended. A \<^verbatim>\<open>POST /api/files\<close> that answers 200 has written in place:
  \<^verbatim>\<open>ensureDir\<close> of the parent, then the open of the target path itself, which leaves it
  empty, then the write of the content through that descriptor, after which the file
  holds exactly the content. Nothing else in the tree changes after \<^verbatim>\<open>ensureDir\<close>: there
  is no temporary file and no rename.
\<close>

theorem write_in_place:
  assumes "post_files FILES_DIR fs b = (r, fs')" and "status r = 200"
  shows "\<exists>fullPath s fs1 fd fs2.
           path_join [JStr FILES_DIR, js_get b ''filePath''] = Inr fullPath \<and>
           js_or (js_get b ''content'') (JStr []) = JStr s \<and>
           fs_ensureDir fs (dirname fullPath) = Inr fs1 \<and>
           fs_open_w fs1 fullPath = Inr (fd, fs2) \<and>
           fs' = fs_write fs2 fd s \<and>
           resolve fs1 fullPath = Inr fd \<and>
           fs_readFile fs2 fullPath = Inr [] \<and>
           fs_readFile fs' fullPath = Inr s \<and>
           (\<forall>k. k \<noteq> fd \<longrightarrow> lookup fs2 k = lookup fs1 k \<and> lookup fs' k = lookup fs1 k)"
proof -
  from post_files_success[OF assms] obtain fullPath s fs1 fd fs2 where
    j: "path_join [JStr FILES_DIR, js_get b ''filePath''] = Inr fullPath" and
    d: "js_or (js_get b ''content'') (JStr []) = JStr s" and
    e: "fs_ensureDir fs (dirname fullPath) = Inr fs1" and
    o: "fs_open_w fs1 fullPath = Inr (fd, fs2)" and
    f: "fs' = fs_write fs2 fd s" by blast
  from open_w_success[OF o] have rs: "resolve fs1 fullPath = Inr fd" and fd: "fd \<noteq> []"
    and fs2: "fs2 = AList.update fd (File []) fs1" by auto
  note l = leads_to_opened[OF o]
  from leads_to_read[OF l] have r2: "fs_readFile fs2 fullPath = Inr []" .
  from leads_to_write[OF l, of s] f have f': "fs' = AList.update fd (File s) fs2" by simp
  from leads_to_read[OF leads_to_update[OF l, of s]] f'
  have r3: "fs_readFile fs' fullPath = Inr s" by simp
  have "\<forall>k. k \<noteq> fd \<longrightarrow> lookup fs2 k = lookup fs1 k \<and> lookup fs' k = lookup fs1 k"
    using fd by (simp add: f' fs2 lookup_update)
  with j d e o f rs r2 r3 show ?thesis by blast
qed

theorem write_in_place_witness:
  "status (fst (post_files default_FILES_DIR example_fs
      (JObj [(''filePath'', JStr ''notes/b.txt''), (''content'', JStr ''hello'')]))) = 200 \<and>
   (\<exists>fullPath s fs1 fd fs2.
      path_join [JStr default_FILES_DIR, JStr ''notes/b.txt''] = Inr fullPath \<and>
      JStr ''hello'' = JStr s \<and>
      fs_ensureDir example_fs (dirname fullPath) = Inr fs1 \<and>
      fs_open_w fs1 fullPath = Inr (fd, fs2) \<and>
      snd (post_files default_FILES_DIR example_fs
        (JObj [(''filePath'', JStr ''notes/b.txt''), (''content'', JStr ''hello'')])) =
        fs_write fs2 fd s \<and>
      fs_readFile fs2 fullPath = Inr [] \<and>
      fs_readFile (fs_write fs2 fd s) fullPath = Inr s)"
proof -
  have s: "status (json_ok (JObj [(''success'', JBool True), (''path'', JStr ''notes/b.txt'')])) = 200"
    by (simp add: json_ok_def)
  from write_in_place[OF post_example s] obtain fullPath s fs1 fd fs2 where
    "path_join [JStr default_FILES_DIR, JStr ''notes/b.txt''] = Inr fullPath"
    "JStr ''hello'' = JStr s"
    "fs_ensureDir example_fs (dirname fullPath) = Inr fs1"
    "fs_open_w fs1 fullPath = Inr (fd, fs2)"
    "example_fs @ [([''var'', ''www'', ''html'', ''notes''], Dir),
                   ([''var'', ''www'', ''html'', ''notes'', ''b.txt''], File ''hello'')] =
       fs_write fs2 fd s"
    "fs_readFile fs2 fullPath = Inr []"
    "fs_readFile (fs_write fs2 fd s) fullPath = Inr s"
    by (auto simp: js_or_def)
  with s show ?thesis unfolding post_example by (simp only: fst_conv snd_conv) blast
qed

subsection \<open>Two writes of one file at once\<close>

text \<open>
  Claim C3, as stated, fails for two \<^verbatim>\<open>POST\<close>s of \<^verbatim>\<open>a.txt\<close>, one with \<^verbatim>\<open>hello\<close> and one with
  \<^verbatim>\<open>hi\<close>. Their steps can run in the order: both \<^verbatim>\<open>ensureDir\<close>, both opens, the write of
  \<^verbatim>\<open>hello\<close>, the write of \<^verbatim>\<open>hi\<close>. The file then holds \<^verbatim>\<open>hillo\<close>, which neither serial
  order leaves (they leave \<^verbatim>\<open>hi\<close> and \<^verbatim>\<open>hello\<close>). Run alone, the steps of a request leave
  what its handler leaves.
\<close>

theorem concurrent_writes_counterexample:
  "[(0, EnsureDir ''/var/www/html''), (Suc 0, EnsureDir ''/var/www/html''),
    (0, OpenW ''/var/www/html/a.txt''), (Suc 0, OpenW ''/var/www/html/a.txt''),
    (0, WriteFd ''hello''), (Suc 0, WriteFd ''hi'')]
     \<in> shuffles (map (Pair 0) (post_steps ''/var/www/html/a.txt'' ''hello''))
                 (map (Pair (Suc 0)) (post_steps ''/var/www/html/a.txt'' ''hi'')) \<and>
   fs_readFile
     (files (run [(0, EnsureDir ''/var/www/html''), (Suc 0, EnsureDir ''/var/www/html''),
                  (0, OpenW ''/var/www/html/a.txt''), (Suc 0, OpenW ''/var/www/html/a.txt''),
                  (0, WriteFd ''hello''), (Suc 0, WriteFd ''hi'')] example_fs))
     ''/var/www/html/a.txt'' = Inr ''hillo'' \<and>
   files (run (map (Pair 0) (post_steps ''/var/www/html/a.txt'' ''hello'')) example_fs) =
     snd (post_files default_FILES_DIR example_fs
            (JObj [(''filePath'', JStr ''a.txt''), (''content'', JStr ''hello'')])) \<and>
   fs_readFile
     (snd (post_files default_FILES_DIR
             (snd (post_files default_FILES_DIR example_fs
                     (JObj [(''filePath'', JStr ''a.txt''), (''content'', JStr ''hello'')])))
             (JObj [(''filePath'', JStr ''a.txt''), (''content'', JStr ''hi'')])))
     ''/var/www/html/a.txt'' = Inr ''hi'' \<and>
   fs_readFile
     (snd (post_files default_FILES_DIR
             (snd (post_files default_FILES_DIR example_fs
                     (JObj [(''filePath'', JStr ''a.txt''), (''content'', JStr ''hi'')])))
             (JObj [(''filePath'', JStr ''a.txt''), (''content'', JStr ''hello'')])))
     ''/var/www/html/a.txt'' = Inr ''hello''"
  by (simp add: path_defs fs_defs handler_defs example_fs_def run_def exec_step.simps
      post_steps_def write_steps_def Cons_in_shuffles_iff)

text \<open>
  Claim C3, amended. No lock is taken. When the parent directory is there and the target
  can be opened, two \<^verbatim>\<open>POST\<close>s of one path whose steps run in any order that keeps the
  order of each both end without an error, and the file holds one of the two contents,
  or one of them followed by what the other, longer one had written beyond its length.
\<close>

theorem concurrent_writes:
  assumes "fs_stat fs (dirname p) = Inr st" and "isDirectory st"
    and "fs_open_w fs p = Inr (fd, fs2)"
    and "sched \<in> shuffles (map (Pair 0) (post_steps p a)) (map (Pair (Suc 0)) (post_steps p b))"
  shows "failed (run sched fs) = (\<lambda>_. None) \<and>
         (\<exists>c \<in> {a, b, a @ drop (length a) b, b @ drop (length b) a}.
            fs_readFile (files (run sched fs)) p = Inr c)"
proof -
  let ?d = "dirname p"
  let ?keep = "\<lambda>(i :: nat, x). x \<noteq> EnsureDir ?d"
  let ?st0 = "\<lparr>files = fs, fds = (\<lambda>_. None), failed = (\<lambda>_. None)\<rparr>"
  have s0: "steady ?d p fd ?st0"
    using stat_is_dir[OF assms(1,2)] open_openable[OF assms(3)] by (simp add: steady_def)
  from set_shuffles[OF assms(4)]
  have "\<forall>(i, x) \<in> set sched. x = EnsureDir ?d \<or> x = OpenW p \<or> (\<exists>s. x = WriteFd s)"
    by (auto simp: post_steps_def write_steps_def)
  from ensure_steps_skipped[OF s0 this]
  have r: "run sched fs = run (filter ?keep sched) fs" by (simp add: run_def)
  from assms(4) have "filter ?keep sched \<in>
      filter ?keep ` shuffles (map (Pair 0) (post_steps p a)) (map (Pair (Suc 0)) (post_steps p b))"
    by (rule imageI)
  moreover have "filter ?keep (map (Pair 0) (post_steps p a)) = [(0, OpenW p), (0, WriteFd a)]"
    and "filter ?keep (map (Pair (Suc 0)) (post_steps p b)) = [(Suc 0, OpenW p), (Suc 0, WriteFd b)]"
    by (simp_all add: post_steps_def write_steps_def)
  ultimately have "filter ?keep sched \<in>
      shuffles [(0, OpenW p), (0, WriteFd a)] [(Suc 0, OpenW p), (Suc 0, WriteFd b)]"
    by (simp only: filter_shuffles)
  from shuffles_two[OF this] consider
      "filter ?keep sched \<in> {[(0, OpenW p), (0, WriteFd a), (Suc 0, OpenW p), (Suc 0, WriteFd b)],
                               [(0, OpenW p), (Suc 0, OpenW p), (0, WriteFd a), (Suc 0, WriteFd b)],
                               [(0, OpenW p), (Suc 0, OpenW p), (Suc 0, WriteFd b), (0, WriteFd a)]}"
    | "filter ?keep sched \<in> {[(Suc 0, OpenW p), (Suc 0, WriteFd b), (0, OpenW p), (0, WriteFd a)],
                               [(Suc 0, OpenW p), (0, OpenW p), (Suc 0, WriteFd b), (0, WriteFd a)],
                               [(Suc 0, OpenW p), (0, OpenW p), (0, WriteFd a), (Suc 0, WriteFd b)]}"
    by auto
  then show ?thesis
  proof cases
    case 1
    from two_writes_run[OF assms(3) 1] r show ?thesis by auto
  next
    case 2
    from two_writes_run[OF assms(3) 2] r show ?thesis by auto
  qed
qed

theorem concurrent_writes_witness:
  "fs_stat example_fs (dirname ''/var/www/html/a.txt'') = Inr \<lparr>isDirectory = True, size = 4096\<rparr> \<and>
   isDirectory \<lparr>isDirectory = True, size = 4096\<rparr> \<and>
   fs_open_w example_fs ''/var/www/html/a.txt'' =
     Inr ([''var'', ''www'', ''html'', ''a.txt''],
          AList.update [''var'', ''www'', ''html'', ''a.txt''] (File []) example_fs) \<and>
   [(0, EnsureDir ''/var/www/html''), (Suc 0, EnsureDir ''/var/www/html''),
    (0, OpenW ''/var/www/html/a.txt''), (Suc 0, OpenW ''/var/www/html/a.txt''),
    (Suc 0, WriteFd ''hi''), (0, WriteFd ''hello'')]
     \<in> shuffles (map (Pair 0) (post_steps ''/var/www/html/a.txt'' ''hello''))
                 (map (Pair (Suc 0)) (post_steps ''/var/www/html/a.txt'' ''hi'')) \<and>
   failed (run [(0, EnsureDir ''/var/www/html''), (Suc 0, EnsureDir ''/var/www/html''),
                (0, OpenW ''/var/www/html/a.txt''), (Suc 0, OpenW ''/var/www/html/a.txt''),
                (Suc 0, WriteFd ''hi''), (0, WriteFd ''hello'')] example_fs) = (\<lambda>_. None) \<and>
   (\<exists>c \<in> {''hello'', ''hi'', ''hello'' @ drop (length ''hello'') ''hi'',
            ''hi'' @ drop (length ''hi'') ''hello''}.
      fs_readFile
        (files (run [(0, EnsureDir ''/var/www/html''), (Suc 0, EnsureDir ''/var/www/html''),
                     (0, OpenW ''/var/www/html/a.txt''), (Suc 0, OpenW ''/var/www/html/a.txt''),
                     (Suc 0, WriteFd ''hi''), (0, WriteFd ''hello'')] example_fs))
        ''/var/www/html/a.txt'' = Inr c)"
proof -
  have h: "fs_stat example_fs (dirname ''/var/www/html/a.txt'') = Inr \<lparr>isDirectory = True, size = 4096\<rparr>"
    "isDirectory \<lparr>isDirectory = True, size = 4096\<rparr>"
    "fs_open_w example_fs ''/var/www/html/a.txt'' =
       Inr ([''var'', ''www'', ''html'', ''a.txt''],
            AList.update [''var'', ''www'', ''html'', ''a.txt''] (File []) example_fs)"
    "[(0, EnsureDir ''/var/www/html''), (Suc 0, EnsureDir ''/var/www/html''),
      (0, OpenW ''/var/www/html/a.txt''), (Suc 0, OpenW ''/var/www/html/a.txt''),
      (Suc 0, WriteFd ''hi''), (0, WriteFd ''hello'')]
       \<in> shuffles (map (Pair 0) (post_steps ''/var/www/html/a.txt'' ''hello''))
                   (map (Pair (Suc 0)) (post_steps ''/var/www/html/a.txt'' ''hi''))"
    by (simp_all add: path_defs fs_defs example_fs_def post_steps_def write_steps_def
        Cons_in_shuffles_iff)
  from concurrent_writes[OF h] h show ?thesis by (simp only: simp_thms)
qed

subsection \<open>Deleting what is not there\<close>











subsection \<open>What an error message shows\<close>

text \<open>
  Claim C6, as stated, fails at the path \<^verbatim>\<open>nope\<close>, which names nothing: the read answers
  status 500 with the message of the failed \<^verbatim>\<open>stat\<close>, and that message holds
  \<^verbatim>\<open>/var/www/html/nope\<close>, the joined path with the root in it.
\<close>

theorem error_message_counterexample:
  "get_content default_FILES_DIR example_fs (JStr ''nope'') =
     json_error 500 (''ENOENT: no such file or directory, stat '' @ [CHR 0x27] @
                     ''/var/www/html/nope'' @ [CHR 0x27]) \<and>
   sublist default_FILES_DIR
     (''ENOENT: no such file or directory, stat '' @ [CHR 0x27] @
      ''/var/www/html/nope'' @ [CHR 0x27])"
  by (simp add: path_defs fs_defs handler_defs example_fs_def sublist_Cons_right)

lemma sys_error_holds_root:
  assumes "startsWith p FILES_DIR"
  shows "sublist FILES_DIR (message (sys_error e syscall p))"
proof -
  from assms obtain t where p: "p = FILES_DIR @ t"
    by (auto simp: startsWith_def prefix_def)
  have "sublist FILES_DIR ((errno_text e @ '', '' @ syscall @ '' '' @ [CHR 0x27]) @ FILES_DIR @
          (t @ [CHR 0x27]))"
    by (rule sublist_appendI)
  then show ?thesis by (simp add: sys_error_def p)
qed

text \<open>
  Claim C6, amended. An error that a handler words itself (status 400 or 403) is one of
  four fixed texts, none of which holds a slash, so none holds a path. A status 500 is
  not so: when the call that is given the joined path (\<^verbatim>\<open>readdir\<close> in the listing, \<^verbatim>\<open>stat\<close>
  in the read, \<^verbatim>\<open>remove\<close> in the delete, \<^verbatim>\<open>writeFile\<close> in the \<^verbatim>\<open>POST\<close>) fails with a system
  error on that path, the handler answers 500 with the message of that error as it is,
  and the message holds \<^verbatim>\<open>FILES_DIR\<close>, with which the joined path begins.
\<close>

theorem error_texts:
  "(status (get_files FILES_DIR fs q) \<in> {400, 403} \<longrightarrow> fixed_error (get_files FILES_DIR fs q)) \<and>
   (status (get_content FILES_DIR fs q) \<in> {400, 403} \<longrightarrow> fixed_error (get_content FILES_DIR fs q)) \<and>
   (status (fst (post_files FILES_DIR fs b)) \<in> {400, 403} \<longrightarrow>
      fixed_error (fst (post_files FILES_DIR fs b))) \<and>
   (status (fst (delete_files FILES_DIR fs q)) \<in> {400, 403} \<longrightarrow>
      fixed_error (fst (delete_files FILES_DIR fs q))) \<and>
   (status (fst (upload move FILES_DIR fs f bp)) \<in> {400, 403} \<longrightarrow>
      fixed_error (fst (upload move FILES_DIR fs f bp))) \<and>
   (\<forall>m \<in> set handler_messages. CHR ''/'' \<notin> set m) \<and>
   ((if truthy q then path_join [JStr FILES_DIR, q] else Inr FILES_DIR) = Inr p \<and>
    startsWith p FILES_DIR \<and> fs_readdir fs p = Inl (sys_error e syscall p) \<longrightarrow>
      get_files FILES_DIR fs q = json_error 500 (message (sys_error e syscall p)) \<and>
      sublist FILES_DIR (message (sys_error e syscall p))) \<and>
   (truthy q \<and> path_join [JStr FILES_DIR, q] = Inr p \<and>
    startsWith p FILES_DIR \<and> fs_stat fs p = Inl (sys_error e syscall p) \<longrightarrow>
      get_content FILES_DIR fs q = json_error 500 (message (sys_error e syscall p)) \<and>
      sublist FILES_DIR (message (sys_error e syscall p))) \<and>
   (truthy q \<and> path_join [JStr FILES_DIR, q] = Inr p \<and>
    startsWith p FILES_DIR \<and> fs_remove fs p = Inl (sys_error e syscall p) \<longrightarrow>
      delete_files FILES_DIR fs q = (json_error 500 (message (sys_error e syscall p)), fs) \<and>
      sublist FILES_DIR (message (sys_error e syscall p))) \<and>
   (b \<noteq> JUndefined \<and> b \<noteq> JNull \<and> truthy (js_get b ''filePath'') \<and>
    path_join [JStr FILES_DIR, js_get b ''filePath''] = Inr p \<and> startsWith p FILES_DIR \<and>
    fs_ensureDir fs (dirname p) = Inr fs1 \<and>
    fs_writeFile fs1 p (js_or (js_get b ''content'') (JStr [])) = Inl (sys_error e syscall p) \<longrightarrow>
      post_files FILES_DIR fs b = (json_error 500 (message (sys_error e syscall p)), fs1) \<and>
      sublist FILES_DIR (message (sys_error e syscall p)))"
proof (intro conjI)
  show "status (get_files FILES_DIR fs q) \<in> {400, 403} \<longrightarrow> fixed_error (get_files FILES_DIR fs q)"
    by (simp add: get_files_def json_error_def json_ok_def fixed_error_def handler_messages_def
        split: sum.splits)
  show "status (get_content FILES_DIR fs q) \<in> {400, 403} \<longrightarrow> fixed_error (get_content FILES_DIR fs q)"
    by (simp add: get_content_def json_error_def json_ok_def fixed_error_def handler_messages_def
        split: sum.splits)
  show "status (fst (post_files FILES_DIR fs b)) \<in> {400, 403} \<longrightarrow>
      fixed_error (fst (post_files FILES_DIR fs b))"
    by (simp add: post_files_def json_error_def json_ok_def fixed_error_def handler_messages_def
        split: sum.splits prod.splits)
  show "status (fst (delete_files FILES_DIR fs q)) \<in> {400, 403} \<longrightarrow>
      fixed_error (fst (delete_files FILES_DIR fs q))"
    by (simp add: delete_files_def json_error_def json_ok_def fixed_error_def handler_messages_def
        Let_def split: sum.splits)
  show "status (fst (upload move FILES_DIR fs f bp)) \<in> {400, 403} \<longrightarrow>
      fixed_error (fst (upload move FILES_DIR fs f bp))"
    by (simp add: upload_def json_error_def json_ok_def fixed_error_def handler_messages_def
        Let_def split: sum.splits option.splits prod.splits)
  show "\<forall>m \<in> set handler_messages. CHR ''/'' \<notin> set m"
    by (simp add: handler_messages_def)
  show "(if truthy q then path_join [JStr FILES_DIR, q] else Inr FILES_DIR) = Inr p \<and>
    startsWith p FILES_DIR \<and> fs_readdir fs p = Inl (sys_error e syscall p) \<longrightarrow>
      get_files FILES_DIR fs q = json_error 500 (message (sys_error e syscall p)) \<and>
      sublist FILES_DIR (message (sys_error e syscall p))"
    using sys_error_holds_root[of p FILES_DIR e syscall] by (simp add: get_files_def)
  show "truthy q \<and> path_join [JStr FILES_DIR, q] = Inr p \<and>
    startsWith p FILES_DIR \<and> fs_stat fs p = Inl (sys_error e syscall p) \<longrightarrow>
      get_content FILES_DIR fs q = json_error 500 (message (sys_error e syscall p)) \<and>
      sublist FILES_DIR (message (sys_error e syscall p))"
    using sys_error_holds_root[of p FILES_DIR e syscall] by (simp add: get_content_def)
  show "truthy q \<and> path_join [JStr FILES_DIR, q] = Inr p \<and>
    startsWith p FILES_DIR \<and> fs_remove fs p = Inl (sys_error e syscall p) \<longrightarrow>
      delete_files FILES_DIR fs q = (json_error 500 (message (sys_error e syscall p)), fs) \<and>
      sublist FILES_DIR (message (sys_error e syscall p))"
    using sys_error_holds_root[of p FILES_DIR e syscall] by (simp add: delete_files_def)
  show "b \<noteq> JUndefined \<and> b \<noteq> JNull \<and> truthy (js_get b ''filePath'') \<and>
    path_join [JStr FILES_DIR, js_get b ''filePath''] = Inr p \<and> startsWith p FILES_DIR \<and>
    fs_ensureDir fs (dirname p) = Inr fs1 \<and>
    fs_writeFile fs1 p (js_or (js_get b ''content'') (JStr [])) = Inl (sys_error e syscall p) \<longrightarrow>
      post_files FILES_DIR fs b = (json_error 500 (message (sys_error e syscall p)), fs1) \<and>
      sublist FILES_DIR (message (sys_error e syscall p))"
    using sys_error_holds_root[of p FILES_DIR e syscall]
    by (simp add: post_files_def destructure_def)
qed

theorem error_texts_witness:
  "status (get_files default_FILES_DIR example_fs (JStr ''../../etc'')) \<in> {400, 403} \<and>
   fixed_error (get_files default_FILES_DIR example_fs (JStr ''../../etc'')) \<and>
   status (get_content default_FILES_DIR example_fs (JStr ''../../etc'')) \<in> {400, 403} \<and>
   fixed_error (get_content default_FILES_DIR example_fs (JStr ''../../etc'')) \<and>
   status (fst (post_files default_FILES_DIR example_fs (JObj []))) \<in> {400, 403} \<and>
   fixed_error (fst (post_files default_FILES_DIR example_fs (JObj []))) \<and>
   status (fst (delete_files default_FILES_DIR example_fs (JStr ''../../etc''))) \<in> {400, 403} \<and>
   fixed_error (fst (delete_files default_FILES_DIR example_fs (JStr ''../../etc''))) \<and>
   status (fst (upload (\<lambda>fs src dest. (None, fs)) default_FILES_DIR example_fs None JUndefined))
     \<in> {400, 403} \<and>
   fixed_error (fst (upload (\<lambda>fs src dest. (None, fs)) default_FILES_DIR example_fs None JUndefined)) \<and>
   fs_readdir example_fs ''/var/www/html/nope'' =
     Inl (sys_error ENOENT ''scandir'' ''/var/www/html/nope'') \<and>
   get_files default_FILES_DIR example_fs (JStr ''nope'') =
     json_error 500 (message (sys_error ENOENT ''scandir'' ''/var/www/html/nope'')) \<and>
   sublist default_FILES_DIR (message (sys_error ENOENT ''scandir'' ''/var/www/html/nope'')) \<and>
   fs_stat example_fs ''/var/www/html/nope'' = Inl (sys_error ENOENT ''stat'' ''/var/www/html/nope'') \<and>
   get_content default_FILES_DIR example_fs (JStr ''nope'') =
     json_error 500 (message (sys_error ENOENT ''stat'' ''/var/www/html/nope'')) \<and>
   sublist default_FILES_DIR (message (sys_error ENOENT ''stat'' ''/var/www/html/nope'')) \<and>
   fs_remove example_fs ''/var/www/html/a.txt/x'' =
     Inl (sys_error ENOTDIR ''lstat'' ''/var/www/html/a.txt/x'') \<and>
   delete_files default_FILES_DIR example_fs (JStr ''a.txt/x'') =
     (json_error 500 (message (sys_error ENOTDIR ''lstat'' ''/var/www/html/a.txt/x'')), example_fs) \<and>
   sublist default_FILES_DIR (message (sys_error ENOTDIR ''lstat'' ''/var/www/html/a.txt/x'')) \<and>
   fs_ensureDir example_fs (dirname ''/var/www/html'') = Inr example_fs \<and>
   fs_writeFile example_fs ''/var/www/html'' (JStr ''x'') =
     Inl (sys_error EISDIR ''open'' ''/var/www/html'') \<and>
   post_files default_FILES_DIR example_fs (JObj [(''filePath'', JStr ''.''), (''content'', JStr ''x'')]) =
     (json_error 500 (message (sys_error EISDIR ''open'' ''/var/www/html'')), example_fs) \<and>
   sublist default_FILES_DIR (message (sys_error EISDIR ''open'' ''/var/www/html''))"
proof -
  let ?mv = "\<lambda>(fs :: filesys) (src :: string) (dest :: string). (None :: jserror option, fs)"
  let ?b = "JObj [(''filePath'', JStr ''.''), (''content'', JStr ''x'')]"
  have s: "status (get_files default_FILES_DIR example_fs (JStr ''../../etc'')) \<in> {400, 403}"
    "status (get_content default_FILES_DIR example_fs (JStr ''../../etc'')) \<in> {400, 403}"
    "status (fst (post_files default_FILES_DIR example_fs (JObj []))) \<in> {400, 403}"
    "status (fst (delete_files default_FILES_DIR example_fs (JStr ''../../etc''))) \<in> {400, 403}"
    "status (fst (upload ?mv default_FILES_DIR example_fs None JUndefined)) \<in> {400, 403}"
    by (simp_all add: path_defs fs_defs handler_defs example_fs_def)
  have j: "truthy (JStr ''nope'')"
    "path_join [JStr default_FILES_DIR, JStr ''nope''] = Inr ''/var/www/html/nope''"
    "startsWith ''/var/www/html/nope'' default_FILES_DIR"
    "truthy (JStr ''a.txt/x'')"
    "path_join [JStr default_FILES_DIR, JStr ''a.txt/x''] = Inr ''/var/www/html/a.txt/x''"
    "startsWith ''/var/www/html/a.txt/x'' default_FILES_DIR"
    "?b \<noteq> JUndefined" "?b \<noteq> JNull" "truthy (js_get ?b ''filePath'')"
    "path_join [JStr default_FILES_DIR, js_get ?b ''filePath''] = Inr ''/var/www/html''"
    "startsWith ''/var/www/html'' default_FILES_DIR"
    "js_or (js_get ?b ''content'') (JStr []) = JStr ''x''"
    by (simp_all add: path_defs handler_defs)
  have c: "fs_readdir example_fs ''/var/www/html/nope'' =
       Inl (sys_error ENOENT ''scandir'' ''/var/www/html/nope'')"
    "fs_stat example_fs ''/var/www/html/nope'' = Inl (sys_error ENOENT ''stat'' ''/var/www/html/nope'')"
    "fs_remove example_fs ''/var/www/html/a.txt/x'' =
       Inl (sys_error ENOTDIR ''lstat'' ''/var/www/html/a.txt/x'')"
    "fs_ensureDir example_fs (dirname ''/var/www/html'') = Inr example_fs"
    "fs_writeFile example_fs ''/var/www/html'' (JStr ''x'') =
       Inl (sys_error EISDIR ''open'' ''/var/www/html'')"
    by (simp_all add: path_defs fs_defs example_fs_def)
  note A = error_texts[where FILES_DIR = default_FILES_DIR and fs = example_fs
      and q = "JStr ''../../etc''" and b = "JObj []" and move = ?mv and f = None and bp = JUndefined
      and p = "''/var/www/html/nope''" and e = ENOENT and syscall = "''stat''" and ?fs1.0 = example_fs]
  note B = error_texts[where FILES_DIR = default_FILES_DIR and fs = example_fs
      and q = "JStr ''nope''" and b = "JObj []" and move = ?mv and f = None and bp = JUndefined
      and p = "''/var/www/html/nope''" and e = ENOENT and syscall = "''scandir''"
      and ?fs1.0 = example_fs]
  note C = error_texts[where FILES_DIR = default_FILES_DIR and fs = example_fs
      and q = "JStr ''nope''" and b = "JObj []" and move = ?mv and f = None and bp = JUndefined
      and p = "''/var/www/html/nope''" and e = ENOENT and syscall = "''stat''"
      and ?fs1.0 = example_fs]
  note D = error_texts[where FILES_DIR = default_FILES_DIR and fs = example_fs
      and q = "JStr ''a.txt/x''" and b = "JObj []" and move = ?mv and f = None and bp = JUndefined
      and p = "''/var/www/html/a.txt/x''" and e = ENOTDIR and syscall = "''lstat''"
      and ?fs1.0 = example_fs]
  note E = error_texts[where FILES_DIR = default_FILES_DIR and fs = example_fs
      and q = "JStr ''nope''" and b = ?b and move = ?mv and f = None and bp = JUndefined
      and p = "''/var/www/html''" and e = EISDIR and syscall = "''open''"
      and ?fs1.0 = example_fs]
  from A s have 1: "fixed_error (get_files default_FILES_DIR example_fs (JStr ''../../etc''))"
    "fixed_error (get_content default_FILES_DIR example_fs (JStr ''../../etc''))"
    "fixed_error (fst (post_files default_FILES_DIR example_fs (JObj [])))"
    "fixed_error (fst (delete_files default_FILES_DIR example_fs (JStr ''../../etc'')))"
    "fixed_error (fst (upload ?mv default_FILES_DIR example_fs None JUndefined))"
    by blast+
  from B j c have 2: "get_files default_FILES_DIR example_fs (JStr ''nope'') =
     json_error 500 (message (sys_error ENOENT ''scandir'' ''/var/www/html/nope''))"
    "sublist default_FILES_DIR (message (sys_error ENOENT ''scandir'' ''/var/www/html/nope''))"
    by simp_all
  from C j c have 3: "get_content default_FILES_DIR example_fs (JStr ''nope'') =
     json_error 500 (message (sys_error ENOENT ''stat'' ''/var/www/html/nope''))"
    "sublist default_FILES_DIR (message (sys_error ENOENT ''stat'' ''/var/www/html/nope''))"
    by simp_all
  from D j c have 4: "delete_files default_FILES_DIR example_fs (JStr ''a.txt/x'') =
     (json_error 500 (message (sys_error ENOTDIR ''lstat'' ''/var/www/html/a.txt/x'')), example_fs)"
    "sublist default_FILES_DIR (message (sys_error ENOTDIR ''lstat'' ''/var/www/html/a.txt/x''))"
    by simp_all
  from E j c have 5: "post_files default_FILES_DIR example_fs ?b =
     (json_error 500 (message (sys_error EISDIR ''open'' ''/var/www/html'')), example_fs)"
    "sublist default_FILES_DIR (message (sys_error EISDIR ''open'' ''/var/www/html''))"
    by simp_all
  from s 1 2 3 4 5 c show ?thesis by (simp only: simp_thms)
qed

subsection \<open>The shape of an error reply\<close>

lemma handler_error_shape:
  "status (get_files FILES_DIR fs q) \<noteq> 200 \<longrightarrow> is_error_body (body (get_files FILES_DIR fs q))"
  "status (get_content FILES_DIR fs q) \<noteq> 200 \<longrightarrow> is_error_body (body (get_content FILES_DIR fs q))"
  "status (fst (post_files FILES_DIR fs b)) \<noteq> 200 \<longrightarrow>
     is_error_body (body (fst (post_files FILES_DIR fs b)))"
  "status (fst (delete_files FILES_DIR fs q)) \<noteq> 200 \<longrightarrow>
     is_error_body (body (fst (delete_files FILES_DIR fs q)))"
  "status (fst (upload move FILES_DIR fs f bp)) \<noteq> 200 \<longrightarrow>
     is_error_body (body (fst (upload move FILES_DIR fs f bp)))"
proof -
  show "status (get_files FILES_DIR fs q) \<noteq> 200 \<longrightarrow> is_error_body (body (get_files FILES_DIR fs q))"
    by (simp add: get_files_def json_error_def json_ok_def split: sum.splits)
  show "status (get_content FILES_DIR fs q) \<noteq> 200 \<longrightarrow>
      is_error_body (body (get_content FILES_DIR fs q))"
    by (simp add: get_content_def json_error_def json_ok_def split: sum.splits)
  show "status (fst (post_files FILES_DIR fs b)) \<noteq> 200 \<longrightarrow>
      is_error_body (body (fst (post_files FILES_DIR fs b)))"
    by (simp add: post_files_def json_error_def json_ok_def split: sum.splits prod.splits)
  show "status (fst (delete_files FILES_DIR fs q)) \<noteq> 200 \<longrightarrow>
      is_error_body (body (fst (delete_files FILES_DIR fs q)))"
    by (simp add: delete_files_def json_error_def json_ok_def Let_def split: sum.splits)
  show "status (fst (upload move FILES_DIR fs f bp)) \<noteq> 200 \<longrightarrow>
      is_error_body (body (fst (upload move FILES_DIR fs f bp)))"
    by (simp add: upload_def json_error_def json_ok_def Let_def
        split: sum.splits option.splits prod.splits)
qed

text \<open>
  Claim C10, as stated, fails on \<^verbatim>\<open>POST /api/files\<close> with a body of JSON content type
  that does not parse, or that is \<^verbatim>\<open>null\<close>, and on \<^verbatim>\<open>GET /api/files\<close> with such a body:
  \<^verbatim>\<open>express.json()\<close> raises, \<^verbatim>\<open>app.js\<close> has no error middleware, and the answer is status
  400 with a page of type \<^verbatim>\<open>text/html\<close>, which is not a JSON object with the field \<^verbatim>\<open>error\<close>.
\<close>

theorem error_reply_counterexample:
  "route_post_files default_FILES_DIR example_fs BadJsonText =
     (Html 400 (html_document ''Bad Request''), example_fs) \<and>
   route_post_files default_FILES_DIR example_fs (JsonText JNull) =
     (Html 400 (html_document ''Bad Request''), example_fs) \<and>
   route_get_files default_FILES_DIR example_fs BadJsonText JUndefined =
     (Html 400 (html_document ''Bad Request''), example_fs) \<and>
   \<not> is_json_error (Html 400 (html_document ''Bad Request''))"
  by (simp add: route_post_files_def route_get_files_def behind_json_def bad_request_page_def)

text \<open>
  Claim C10, amended. On each of the five routes, when the JSON body parser refuses the
  body the reply is the 400 page of Express, of type \<^verbatim>\<open>text/html\<close> and not a JSON error object,
  and the file system is left as it was. When the parser lets the request through (and,
  for a multipart upload, multer hands it on), every reply whose status is not 200 is a
  JSON object with exactly one field, \<^verbatim>\<open>error\<close>, whose value is a string.
\<close>

theorem error_replies:
  "(express_json raw = None \<longrightarrow>
      route_get_files FILES_DIR fs raw q = (bad_request_page, fs) \<and>
      route_get_content FILES_DIR fs raw q = (bad_request_page, fs) \<and>
      route_post_files FILES_DIR fs raw = (bad_request_page, fs) \<and>
      route_delete_files FILES_DIR fs raw q = (bad_request_page, fs) \<and>
      route_upload move FILES_DIR fs (NotMultipart raw) = (bad_request_page, fs)) \<and>
   \<not> is_json_error bad_request_page \<and>
   (express_json raw \<noteq> None \<and> reply_status (fst (route_get_files FILES_DIR fs raw q)) \<noteq> 200 \<longrightarrow>
      is_json_error (fst (route_get_files FILES_DIR fs raw q))) \<and>
   (express_json raw \<noteq> None \<and> reply_status (fst (route_get_content FILES_DIR fs raw q)) \<noteq> 200 \<longrightarrow>
      is_json_error (fst (route_get_content FILES_DIR fs raw q))) \<and>
   (express_json raw \<noteq> None \<and> reply_status (fst (route_post_files FILES_DIR fs raw)) \<noteq> 200 \<longrightarrow>
      is_json_error (fst (route_post_files FILES_DIR fs raw))) \<and>
   (express_json raw \<noteq> None \<and> reply_status (fst (route_delete_files FILES_DIR fs raw q)) \<noteq> 200 \<longrightarrow>
      is_json_error (fst (route_delete_files FILES_DIR fs raw q))) \<and>
   (express_json raw \<noteq> None \<and>
    reply_status (fst (route_upload move FILES_DIR fs (NotMultipart raw))) \<noteq> 200 \<longrightarrow>
      is_json_error (fst (route_upload move FILES_DIR fs (NotMultipart raw)))) \<and>
   (reply_status (fst (route_upload move FILES_DIR fs (Multipart f bp))) \<noteq> 200 \<longrightarrow>
      is_json_error (fst (route_upload move FILES_DIR fs (Multipart f bp))))"
proof (intro conjI)
  show "express_json raw = None \<longrightarrow>
      route_get_files FILES_DIR fs raw q = (bad_request_page, fs) \<and>
      route_get_content FILES_DIR fs raw q = (bad_request_page, fs) \<and>
      route_post_files FILES_DIR fs raw = (bad_request_page, fs) \<and>
      route_delete_files FILES_DIR fs raw q = (bad_request_page, fs) \<and>
      route_upload move FILES_DIR fs (NotMultipart raw) = (bad_request_page, fs)"
    by (simp add: route_get_files_def route_get_content_def route_post_files_def
        route_delete_files_def behind_json_def)
  show "\<not> is_json_error bad_request_page" by (simp add: bad_request_page_def)
  show "express_json raw \<noteq> None \<and> reply_status (fst (route_get_files FILES_DIR fs raw q)) \<noteq> 200 \<longrightarrow>
      is_json_error (fst (route_get_files FILES_DIR fs raw q))"
    using handler_error_shape(1)[of FILES_DIR fs q]
    by (auto simp: route_get_files_def behind_json_def)
  show "express_json raw \<noteq> None \<and> reply_status (fst (route_get_content FILES_DIR fs raw q)) \<noteq> 200 \<longrightarrow>
      is_json_error (fst (route_get_content FILES_DIR fs raw q))"
    using handler_error_shape(2)[of FILES_DIR fs q]
    by (auto simp: route_get_content_def behind_json_def)
  show "express_json raw \<noteq> None \<and> reply_status (fst (route_post_files FILES_DIR fs raw)) \<noteq> 200 \<longrightarrow>
      is_json_error (fst (route_post_files FILES_DIR fs raw))"
  proof (cases "express_json raw")
    case None
    then show ?thesis by simp
  next
    case (Some b)
    with handler_error_shape(3)[of FILES_DIR fs b] show ?thesis
      by (simp add: route_post_files_def behind_json_def split: prod.splits) (metis fst_conv)
  qed
  show "express_json raw \<noteq> None \<and> reply_status (fst (route_delete_files FILES_DIR fs raw q)) \<noteq> 200 \<longrightarrow>
      is_json_error (fst (route_delete_files FILES_DIR fs raw q))"
  proof (cases "express_json raw")
    case None
    then show ?thesis by simp
  next
    case (Some b)
    with handler_error_shape(4)[of FILES_DIR fs q] show ?thesis
      by (simp add: route_delete_files_def behind_json_def split: prod.splits) (metis fst_conv)
  qed
  show "express_json raw \<noteq> None \<and>
    reply_status (fst (route_upload move FILES_DIR fs (NotMultipart raw))) \<noteq> 200 \<longrightarrow>
      is_json_error (fst (route_upload move FILES_DIR fs (NotMultipart raw)))"
  proof (cases "express_json raw")
    case None
    then show ?thesis by simp
  next
    case (Some b)
    with handler_error_shape(5)[of move FILES_DIR fs None "js_get b ''path''"] show ?thesis
      by (simp add: behind_json_def split: prod.splits) (metis fst_conv)
  qed
  show "reply_status (fst (route_upload move FILES_DIR fs (Multipart f bp))) \<noteq> 200 \<longrightarrow>
      is_json_error (fst (route_upload move FILES_DIR fs (Multipart f bp)))"
    using handler_error_shape(5)[of move FILES_DIR fs f bp]
    by (simp split: prod.splits) (metis fst_conv)
qed

theorem error_replies_witness:
  "express_json BadJsonText = None \<and>
   route_get_files default_FILES_DIR example_fs BadJsonText (JStr ''a.txt'') =
     (bad_request_page, example_fs) \<and>
   route_get_content default_FILES_DIR example_fs BadJsonText (JStr ''a.txt'') =
     (bad_request_page, example_fs) \<and>
   route_post_files default_FILES_DIR example_fs BadJsonText = (bad_request_page, example_fs) \<and>
   route_delete_files default_FILES_DIR example_fs BadJsonText (JStr ''a.txt'') =
     (bad_request_page, example_fs) \<and>
   route_upload (\<lambda>fs src dest. (None, fs)) default_FILES_DIR example_fs (NotMultipart BadJsonText) =
     (bad_request_page, example_fs) \<and>
   express_json NoBody \<noteq> None \<and>
   reply_status (fst (route_get_files default_FILES_DIR example_fs NoBody (JStr ''../../etc''))) = 403 \<and>
   is_json_error (fst (route_get_files default_FILES_DIR example_fs NoBody (JStr ''../../etc''))) \<and>
   reply_status (fst (route_get_content default_FILES_DIR example_fs NoBody (JStr ''../../etc''))) = 403 \<and>
   is_json_error (fst (route_get_content default_FILES_DIR example_fs NoBody (JStr ''../../etc''))) \<and>
   reply_status (fst (route_post_files default_FILES_DIR example_fs NoBody)) = 400 \<and>
   is_json_error (fst (route_post_files default_FILES_DIR example_fs NoBody)) \<and>
   reply_status (fst (route_delete_files default_FILES_DIR example_fs NoBody (JStr ''../../etc''))) = 403 \<and>
   is_json_error (fst (route_delete_files default_FILES_DIR example_fs NoBody (JStr ''../../etc''))) \<and>
   reply_status (fst (route_upload (\<lambda>fs src dest. (None, fs)) default_FILES_DIR example_fs
                        (NotMultipart NoBody))) = 400 \<and>
   is_json_error (fst (route_upload (\<lambda>fs src dest. (None, fs)) default_FILES_DIR example_fs
                        (NotMultipart NoBody))) \<and>
   reply_status (fst (route_upload (\<lambda>fs src dest. (None, fs)) default_FILES_DIR example_fs
                        (Multipart (Some \<lparr>originalname = ''x.txt'', path = ''uploads/1''\<rparr>)
                                   (JStr ''../../etc'')))) = 403 \<and>
   is_json_error (fst (route_upload (\<lambda>fs src dest. (None, fs)) default_FILES_DIR example_fs
                        (Multipart (Some \<lparr>originalname = ''x.txt'', path = ''uploads/1''\<rparr>)
                                   (JStr ''../../etc''))))"
proof -
  let ?mv = "\<lambda>(fs :: filesys) (src :: string) (dest :: string). (None :: jserror option, fs)"
  let ?f = "Some \<lparr>originalname = ''x.txt'', path = ''uploads/1''\<rparr>"
  have n: "express_json BadJsonText = None" "express_json NoBody \<noteq> None" by simp_all
  have s: "reply_status (fst (route_get_files default_FILES_DIR example_fs NoBody (JStr ''../../etc''))) = 403"
    "reply_status (fst (route_get_content default_FILES_DIR example_fs NoBody (JStr ''../../etc''))) = 403"
    "reply_status (fst (route_post_files default_FILES_DIR example_fs NoBody)) = 400"
    "reply_status (fst (route_delete_files default_FILES_DIR example_fs NoBody (JStr ''../../etc''))) = 403"
    "reply_status (fst (route_upload ?mv default_FILES_DIR example_fs (NotMultipart NoBody))) = 400"
    "reply_status (fst (route_upload ?mv default_FILES_DIR example_fs
        (Multipart ?f (JStr ''../../etc'')))) = 403"
    by (simp_all add: route_get_files_def route_get_content_def route_post_files_def
        route_delete_files_def behind_json_def path_defs handler_defs)
  note A = error_replies[where raw = BadJsonText and FILES_DIR = default_FILES_DIR
      and fs = example_fs and q = "JStr ''a.txt''" and move = ?mv and f = ?f
      and bp = "JStr ''../../etc''"]
  note B = error_replies[where raw = NoBody and FILES_DIR = default_FILES_DIR
      and fs = example_fs and q = "JStr ''../../etc''" and move = ?mv and f = ?f
      and bp = "JStr ''../../etc''"]
  from A n have 1:
    "route_get_files default_FILES_DIR example_fs BadJsonText (JStr ''a.txt'') =
       (bad_request_page, example_fs)"
    "route_get_content default_FILES_DIR example_fs BadJsonText (JStr ''a.txt'') =
       (bad_request_page, example_fs)"
    "route_post_files default_FILES_DIR example_fs BadJsonText = (bad_request_page, example_fs)"
    "route_delete_files default_FILES_DIR example_fs BadJsonText (JStr ''a.txt'') =
       (bad_request_page, example_fs)"
    "route_upload ?mv default_FILES_DIR example_fs (NotMultipart BadJsonText) =
       (bad_request_page, example_fs)"
    by blast+
  from B n s have 2:
    "is_json_error (fst (route_get_files default_FILES_DIR example_fs NoBody (JStr ''../../etc'')))"
    "is_json_error (fst (route_get_content default_FILES_DIR example_fs NoBody (JStr ''../../etc'')))"
    "is_json_error (fst (route_post_files default_FILES_DIR example_fs NoBody))"
    "is_json_error (fst (route_delete_files default_FILES_DIR example_fs NoBody (JStr ''../../etc'')))"
    "is_json_error (fst (route_upload ?mv default_FILES_DIR example_fs (NotMultipart NoBody)))"
    "is_json_error (fst (route_upload ?mv default_FILES_DIR example_fs
        (Multipart ?f (JStr ''../../etc''))))"
    by simp_all
  from n s 1 2 show ?thesis by (simp only: simp_thms)
qed

subsection \<open>Joined paths and the directories on the way\<close>








lemma join_segs_nonempty: "plain xs \<Longrightarrow> xs \<noteq> [] \<Longrightarrow> join_segs xs \<noteq> []"
  by (induction xs rule: join_segs.induct) (auto simp: plain_def)

lemma join_segs_empty: "plain xs \<Longrightarrow> join_segs xs = [] \<Longrightarrow> xs = []"
  using join_segs_nonempty by blast








subsection \<open>A body without content\<close>




end
